theory Spec2Isabelle
  imports Complex_Main "HOL-Library.AList"
begin

section \<open>Spin-system identity model (chemex/nmr/spin\_system.py)\<close>

subsection \<open>Python string primitives\<close>

text \<open>
  Labels are modelled as ASCII strings. \<open>str.strip\<close> removes the ASCII white space of
  Python (space, tab, newline, vertical tab, form feed, carriage return and the four
  separators 0x1C..0x1F); \<open>str.upper\<close> maps \<open>a..z\<close> to \<open>A..Z\<close>.
\<close>

definition WHITESPACE :: "char list" where
  "WHITESPACE = [CHR '' '', CHR 0x09, CHR 0x0A, CHR 0x0B, CHR 0x0C, CHR 0x0D,
                 CHR 0x1C, CHR 0x1D, CHR 0x1E, CHR 0x1F]"

definition isspace :: "char \<Rightarrow> bool" where
  "isspace c = (c \<in> set WHITESPACE)"

definition strip :: "string \<Rightarrow> string" where
  "strip s = rev (dropWhile isspace (rev (dropWhile isspace s)))"

definition upper_char :: "char \<Rightarrow> char" where
  "upper_char c =
     (case map_of (zip ''abcdefghijklmnopqrstuvwxyz'' ''ABCDEFGHIJKLMNOPQRSTUVWXYZ'') c of
        Some u \<Rightarrow> u
      | None \<Rightarrow> c)"

definition upper :: "string \<Rightarrow> string" where
  "upper s = map upper_char s"

fun startswith :: "string \<Rightarrow> string \<Rightarrow> bool" where
  "startswith s [] = True"
| "startswith [] (p # ps) = False"
| "startswith (c # cs) (p # ps) = (c = p \<and> startswith cs ps)"

text \<open>\<open>re.search\<close> with a one-character class: the index of the first match.\<close>

fun search_class :: "(char \<Rightarrow> bool) \<Rightarrow> string \<Rightarrow> nat option" where
  "search_class P [] = None"
| "search_class P (c # cs) =
     (if P c then Some 0 else map_option Suc (search_class P cs))"

definition isdigit :: "char \<Rightarrow> bool" where
  "isdigit c = (c \<in> set ''0123456789'')"

definition is_atom_letter :: "char \<Rightarrow> bool" where
  "is_atom_letter c = (c \<in> set ''HCNQM'')"

definition digit_value :: "char \<Rightarrow> int" where
  "digit_value c =
     (case map_of (zip ''0123456789'' [0, 1, 2, 3, 4, 5, 6, 7, 8, 9]) c of
        Some d \<Rightarrow> d
      | None \<Rightarrow> 0)"

text \<open>\<open>int(s)\<close> on a run of decimal digits.\<close>

definition int_of_digits :: "string \<Rightarrow> int" where
  "int_of_digits ds = foldl (\<lambda>a c. 10 * a + digit_value c) 0 ds"

definition digit_char :: "nat \<Rightarrow> char" where
  "digit_char d = ''0123456789'' ! d"

text \<open>\<open>str(n)\<close> of a Python integer.\<close>

fun str_nat :: "nat \<Rightarrow> string" where
  "str_nat n = (if n < 10 then [digit_char n] else str_nat (n div 10) @ [digit_char (n mod 10)])"

declare str_nat.simps [simp del]

definition str_int :: "int \<Rightarrow> string" where
  "str_int i = (if i < 0 then CHR ''-'' # str_nat (nat (- i)) else str_nat (nat i))"

text \<open>\<open>s.split(d)\<close> with a one-character separator.\<close>

fun split_on :: "char \<Rightarrow> string \<Rightarrow> string list" where
  "split_on d [] = [[]]"
| "split_on d (c # cs) =
     (if c = d then [] # split_on d cs
      else (case split_on d cs of
              [] \<Rightarrow> [[c]]
            | w # ws \<Rightarrow> (c # w) # ws))"

text \<open>\<open>sep.join(xs)\<close>.\<close>

fun join :: "string \<Rightarrow> string list \<Rightarrow> string" where
  "join sep [] = []"
| "join sep [x] = x"
| "join sep (x # y # ys) = x @ sep @ join sep (y # ys)"

subsection \<open>Tables\<close>

definition ALIASES :: string where
  "ALIASES = ''isx''"

datatype Nucleus = H1 | N15 | C13

definition STR_TO_NUCLEUS :: "(string \<times> Nucleus) list" where
  "STR_TO_NUCLEUS = [(''H'', H1), (''Q'', H1), (''M'', H1), (''N'', N15), (''C'', C13)]"

definition AAA_TO_A :: "(string \<times> string) list" where
  "AAA_TO_A =
    [(''ALA'', ''A''), (''ARG'', ''R''), (''ASN'', ''N''), (''ASP'', ''D''),
     (''CYS'', ''C''), (''GLN'', ''Q''), (''GLU'', ''E''), (''GLY'', ''G''),
     (''HIS'', ''H''), (''ILE'', ''I''), (''LEU'', ''L''), (''LYS'', ''K''),
     (''MET'', ''M''), (''PHE'', ''F''), (''PRO'', ''P''), (''SER'', ''S''),
     (''THR'', ''T''), (''TRP'', ''W''), (''TYR'', ''Y''), (''VAL'', ''V'')]"

definition CORRECT_ATOM_NAME :: "(string \<times> string) list" where
  "CORRECT_ATOM_NAME = [(''HN'', ''H''), (''C'' @ [CHR 0x27], ''C''), (''CO'', ''C'')]"

definition STANDARD_ATOM_NAMES :: "string list" where
  "STANDARD_ATOM_NAMES =
    [''C'', ''CA'', ''CB'', ''CD'', ''CD1'', ''CD2'', ''CE'', ''CE1'', ''CE2'', ''CE3'',
     ''CG'', ''CG1'', ''CG2'', ''CH2'', ''CQD'', ''CQE'', ''CQG'', ''CZ'', ''CZ2'', ''CZ3'',
     ''H'', ''H2'', ''H3'', ''HA'', ''HA2'', ''HA3'', ''HB'', ''HB1'', ''HB2'', ''HB3'',
     ''HD'', ''HD1'', ''HD11'', ''HD12'', ''HD13'', ''HD2'', ''HD21'', ''HD22'', ''HD23'',
     ''HD3'', ''HE'', ''HE1'', ''HE2'', ''HE21'', ''HE22'', ''HE3'', ''HG'', ''HG1'',
     ''HG11'', ''HG12'', ''HG13'', ''HG2'', ''HG21'', ''HG22'', ''HG23'', ''HG3'', ''HH'',
     ''HH1'', ''HH11'', ''HH12'', ''HH2'', ''HH21'', ''HH22'', ''HZ'', ''HZ1'', ''HZ2'',
     ''HZ3'', ''MB'', ''MD'', ''MD1'', ''MD2'', ''ME'', ''MG'', ''MG1'', ''MG2'', ''MZ'',
     ''N'', ''ND1'', ''ND2'', ''NE'', ''NE1'', ''NE2'', ''NH'', ''NH1'', ''NH2'', ''NQH'',
     ''NZ'', ''QA'', ''QB'', ''QD'', ''QD2'', ''QE'', ''QE2'', ''QG'', ''QG1'', ''QH1'',
     ''QH2'', ''QMD'', ''QMG'', ''QQH'', ''QR'', ''QZ'']"

text \<open>\<open>d.get(k, default)\<close> on a dictionary held as an association list.\<close>

definition dict_get :: "('k \<times> 'v) list \<Rightarrow> 'k \<Rightarrow> 'v \<Rightarrow> 'v" where
  "dict_get d k dflt = (case map_of d k of Some v \<Rightarrow> v | None \<Rightarrow> dflt)"

subsection \<open>Atom and Group\<close>

record Atom =
  Atom_name :: string
  Atom_nucleus :: "Nucleus option"

text \<open>\<open>Atom.__init__\<close>; the search keys are not modelled.\<close>

definition Atom_init :: "string \<Rightarrow> Atom" where
  "Atom_init name =
     (let name1 = upper (strip name);
          name2 = dict_get CORRECT_ATOM_NAME name1 name1
      in \<lparr>Atom_name = name2, Atom_nucleus = map_of STR_TO_NUCLEUS (take 1 name2)\<rparr>)"

definition Atom_match :: "Atom \<Rightarrow> Atom \<Rightarrow> bool" where
  "Atom_match self other = startswith (Atom_name other) (Atom_name self)"

record Group =
  Group_name :: string
  Group_symbol :: string
  Group_number :: int
  Group_suffix :: string

definition NO_NUMBER :: int where
  "NO_NUMBER = - 100000000"

text \<open>\<open>Group.parse_group\<close>: \<open>search("[0-9]+", name)\<close> is the first maximal run of digits.\<close>

definition parse_group :: "string \<Rightarrow> string \<times> int \<times> string" where
  "parse_group name =
     (case search_class isdigit (upper (strip name)) of
        Some start \<Rightarrow>
          (let run = takeWhile isdigit (drop start (upper (strip name)))
           in (take start name, int_of_digits run, drop (start + length run) name))
      | None \<Rightarrow> (name, NO_NUMBER, []))"

definition Group_get_name :: "string \<Rightarrow> int \<Rightarrow> string \<Rightarrow> string" where
  "Group_get_name symbol number suffix =
     symbol @ (if number = NO_NUMBER then [] else str_int number) @ suffix"

definition Group_init :: "string \<Rightarrow> Group" where
  "Group_init name =
     (case parse_group (upper (strip name)) of
        (symbol0, number, suffix) \<Rightarrow>
          (let symbol = dict_get AAA_TO_A symbol0 symbol0
           in \<lparr>Group_name = Group_get_name symbol number suffix,
               Group_symbol = symbol, Group_number = number, Group_suffix = suffix\<rparr>))"

definition Group_match :: "Group \<Rightarrow> Group \<Rightarrow> bool" where
  "Group_match self other =
     (let symbol = (Group_symbol other = Group_symbol self \<or> Group_symbol self = []);
          number = (Group_number other = Group_number self \<or> Group_number self = NO_NUMBER);
          suffix = (Group_suffix other = Group_suffix self \<or> Group_suffix self = [])
      in number \<and> symbol \<and> suffix)"

text \<open>\<open>Group.__eq__\<close> and \<open>Group.__bool__\<close>.\<close>

definition Group_eq :: "Group \<Rightarrow> Group \<Rightarrow> bool" where
  "Group_eq a b = (Group_name a = Group_name b)"

definition Group_bool :: "Group \<Rightarrow> bool" where
  "Group_bool g = (Group_name g \<noteq> [])"

subsection \<open>Spin objects and the object store\<close>

text \<open>
  \<open>Spin\<close> objects are mutable and shared: \<open>SpinSystem.complete\<close> assigns to
  \<open>spin.atom\<close> of objects that the receiver's \<open>spins\<close> dictionary refers to. The model
  therefore keeps every \<open>Spin\<close> in a store (a list indexed by object reference) and lets
  dictionaries and lists hold references. \<open>Atom\<close> and \<open>Group\<close> objects are never assigned
  to after construction and are held by value.
\<close>

record Spin =
  Spin_name :: string
  Spin_group :: Group
  Spin_atom :: Atom

type_synonym ref = nat

type_synonym store = "Spin list"

definition alloc :: "store \<Rightarrow> Spin \<Rightarrow> store \<times> ref" where
  "alloc h s = (h @ [s], length h)"

definition split_group_atom :: "string \<Rightarrow> Group \<times> Atom" where
  "split_group_atom name =
     (if name = ''?'' then (Group_init [], Atom_init [])
      else
        (let first_digit = (case search_class isdigit name of Some i \<Rightarrow> i | None \<Rightarrow> 0)
         in case search_class is_atom_letter (drop first_digit name) of
              None \<Rightarrow>
                (if name \<in> set STANDARD_ATOM_NAMES then (Group_init [], Atom_init name)
                 else (Group_init name, Atom_init []))
            | Some k \<Rightarrow>
                (let atom_index = first_digit + k
                 in (Group_init (take atom_index name), Atom_init (drop atom_index name)))))"

text \<open>\<open>Spin.get_name\<close>: \<open>f"{self.group}{self.atom}"\<close>.\<close>

definition Spin_get_name :: "Group \<Rightarrow> Atom \<Rightarrow> string" where
  "Spin_get_name g a = Group_name g @ Atom_name a"

text \<open>
  \<open>Spin.__init__(name, group_for_completion)\<close>; \<open>None\<close> stands for the default
  \<open>group_for_completion=None\<close>.
\<close>

definition Spin_init :: "string \<Rightarrow> Group option \<Rightarrow> Spin" where
  "Spin_init name group_for_completion =
     (case split_group_atom (upper (strip name)) of
        (g0, a) \<Rightarrow>
          (let g = (case group_for_completion of
                      Some gc \<Rightarrow> (if \<not> Group_bool g0 \<and> Group_bool gc then gc else g0)
                    | None \<Rightarrow> g0)
           in \<lparr>Spin_name = Spin_get_name g a, Spin_group = g, Spin_atom = a\<rparr>))"

subsection \<open>SpinSystem\<close>

text \<open>
  The fields \<open>names\<close> (names of all alias subsets) and \<open>search_keys\<close> are not modelled;
  no operation below reads them.
\<close>

record SpinSystem =
  SpinSystem_name :: string
  SpinSystem_spins :: "(string \<times> ref) list"
  SpinSystem_groups :: "(string \<times> Group) list"
  SpinSystem_symbols :: "(string \<times> string) list"
  SpinSystem_numbers :: "(string \<times> int) list"
  SpinSystem_atoms :: "(string \<times> Atom) list"
  SpinSystem_nuclei :: "(string \<times> Nucleus option) list"

text \<open>
  The loop of \<open>parse_spin_system\<close> over \<open>zip(ALIASES, split)\<close>: each alias gets a new
  \<open>Spin\<close> object whose group is completed from the spin before it.
\<close>

fun parse_spins ::
  "(char \<times> string) list \<Rightarrow> Group option \<Rightarrow> (string \<times> ref) list \<Rightarrow> store
    \<Rightarrow> store \<times> (string \<times> ref) list" where
  "parse_spins [] last_group spins h = (h, spins)"
| "parse_spins ((short_name, name_spin) # rest) last_group spins h =
     (let spin = Spin_init name_spin last_group;
          (h1, r) = alloc h spin
      in parse_spins rest (Some (Spin_group spin)) (AList.update [short_name] r spins) h1)"

definition parse_spin_system :: "string \<Rightarrow> store \<Rightarrow> store \<times> (string \<times> ref) list" where
  "parse_spin_system name h =
     (if name = [] then (h, [])
      else parse_spins (zip ALIASES (split_on CHR ''-'' name)) None [] h)"

text \<open>
  \<open>spins2name\<close> reads the objects as they are in the store when it runs: \<open>str(spin)\<close> is
  the \<open>name\<close> field set by the constructor, \<open>str(spin.atom)\<close> the current atom's name.
\<close>

fun spin_names :: "store \<Rightarrow> Group \<Rightarrow> ref list \<Rightarrow> string list" where
  "spin_names h last_group [] = []"
| "spin_names h last_group (r # rs) =
     (let spin = h ! r;
          spin_name = (if Group_eq (Spin_group spin) last_group
                       then Atom_name (Spin_atom spin) else Spin_name spin)
      in spin_name # spin_names h (Spin_group spin) rs)"

definition spins2name :: "store \<Rightarrow> ref list \<Rightarrow> string" where
  "spins2name h spins = join ''-'' (spin_names h (Group_init []) spins)"

text \<open>The argument of \<open>SpinSystem(...)\<close>: a string, an integer or \<open>None\<close>.\<close>

datatype label = Str string | IntLabel int | NoLabel

definition label_text :: "label \<Rightarrow> string" where
  "label_text l = (case l of Str s \<Rightarrow> s | IntLabel i \<Rightarrow> str_int i | NoLabel \<Rightarrow> [])"

definition SpinSystem_init :: "label \<Rightarrow> store \<Rightarrow> store \<times> SpinSystem" where
  "SpinSystem_init l h =
     (case parse_spin_system (upper (strip (label_text l))) h of
        (h1, spins) \<Rightarrow>
          (let groups = map (\<lambda>(alias, r). (alias, Spin_group (h1 ! r))) spins;
               atoms = map (\<lambda>(alias, r). (alias, Spin_atom (h1 ! r))) spins
           in (h1,
               \<lparr>SpinSystem_name = spins2name h1 (map snd spins),
                SpinSystem_spins = spins,
                SpinSystem_groups = groups,
                SpinSystem_symbols = map (\<lambda>(alias, g). (alias, Group_symbol g)) groups,
                SpinSystem_numbers = map (\<lambda>(alias, g). (alias, Group_number g)) groups,
                SpinSystem_atoms = atoms,
                SpinSystem_nuclei = map (\<lambda>(alias, a). (alias, Atom_nucleus a)) atoms\<rparr>)))"

text \<open>
  \<open>SpinSystem.complete\<close>. \<open>basis.atoms\<close> (class \<open>Basis\<close> of chemex/nmr/liouvillian.py)
  is a dictionary from alias to nucleus letter, such as \<open>{"i": "n", "s": "h"}\<close>; it is
  taken as a parameter. The loop body assigns to \<open>spin.atom\<close> in the store.
\<close>

definition complete_atom :: "string \<Rightarrow> Atom \<Rightarrow> Atom" where
  "complete_atom atom a =
     (if \<not> startswith (Atom_name a) (upper atom)
      then Atom_init (atom @ drop 1 (Atom_name a)) else a)"

fun complete_loop ::
  "(string \<times> ref) list \<Rightarrow> (string \<times> string) list \<Rightarrow> ref \<Rightarrow> ref list \<Rightarrow> store
    \<Rightarrow> store \<times> ref list" where
  "complete_loop self_spins [] last_spin spins h = (h, spins)"
| "complete_loop self_spins ((letter, atom) # rest) last_spin spins h =
     (let spin = dict_get self_spins letter last_spin;
          h1 = h[spin := (h ! spin)\<lparr>Spin_atom := complete_atom atom (Spin_atom (h ! spin))\<rparr>]
      in complete_loop self_spins rest spin (spins @ [spin]) h1)"

definition complete ::
  "SpinSystem \<Rightarrow> (string \<times> string) list \<Rightarrow> store \<Rightarrow> store \<times> SpinSystem" where
  "complete self basis_atoms h =
     (case alloc h (Spin_init [] None) of
        (h0, last_spin) \<Rightarrow>
          (case complete_loop (SpinSystem_spins self) basis_atoms last_spin [] h0 of
             (h1, spins) \<Rightarrow> SpinSystem_init (Str (spins2name h1 spins)) h1))"

section \<open>Parameter sets (chemex/parameters/helper.py)\<close>

text \<open>
  An \<open>lmfit.Parameter\<close> with the attributes the configuration sets, and an
  \<open>lmfit.Parameters\<close> object as the ordered dictionary it is: an association list from
  name to parameter. Assigning to an existing key keeps the key's place
  (\<open>AList.update\<close>).
\<close>

record Parameter =
  Parameter_name :: string
  Parameter_value :: real
  Parameter_vary :: bool
  Parameter_min :: "real option"
  Parameter_max :: "real option"
  Parameter_expr :: string

type_synonym Parameters = "(string \<times> Parameter) list"

text \<open>The inner loop of \<open>merge\<close> over \<open>params.items()\<close>; \<open>merged\<close> is the dictionary \<open>params_\<close> of the source.\<close>

fun merge_items :: "Parameters \<Rightarrow> Parameters \<Rightarrow> Parameters" where
  "merge_items merged [] = merged"
| "merge_items merged ((name, param) # rest) =
     (case map_of merged name of
        Some p \<Rightarrow>
          (if Parameter_vary p then merge_items merged rest
           else merge_items (AList.update name param merged) rest)
      | None \<Rightarrow> merge_items (AList.update name param merged) rest)"

text \<open>The outer loop over \<open>params_list\<close>.\<close>

fun merge_sets :: "Parameters \<Rightarrow> Parameters list \<Rightarrow> Parameters" where
  "merge_sets merged [] = merged"
| "merge_sets merged (params # rest) = merge_sets (merge_items merged params) rest"

text \<open>\<open>Parameters.add_many\<close>: each parameter is stored under its own name.\<close>

fun add_many :: "Parameters \<Rightarrow> Parameter list \<Rightarrow> Parameters" where
  "add_many params [] = params"
| "add_many params (par # rest) = add_many (AList.update (Parameter_name par) par params) rest"

definition merge :: "Parameters list \<Rightarrow> Parameters" where
  "merge params_list = add_many [] (map snd (merge_sets [] params_list))"

text \<open>
  The invariant of \<open>lmfit.Parameters\<close>: every parameter is stored under its own name.
\<close>

definition Parameters_ok :: "Parameters \<Rightarrow> bool" where
  "Parameters_ok params = list_all (\<lambda>(name, param). Parameter_name param = name) params"

section \<open>Floating-point numbers\<close>

text \<open>
  A numpy \<open>float64\<close> is a finite number, an infinity or \<open>nan\<close>. A finite value is
  held as the real number it denotes, so comparing two values and taking an absolute
  value are exact, as they are on the machine. Arithmetic is not: the machine rounds every
  sum, difference, product, quotient and remainder. Where a branch of the code depends
  on a comparison of computed values (the regimes of the CPMG phase cycle, the filter
  windows of a CEST profile) the model does not fix the rounding: the operations are
  parameters, and the properties hold for whatever values they return. The residuals and
  the Monte Carlo intensities, where rounding changes values but no branch, are computed
  in real arithmetic.
\<close>

datatype np_float = Finite real | PosInf | NegInf | NaN

text \<open>\<open>x < y\<close>: every comparison with \<open>nan\<close> is false.\<close>

fun np_less :: "np_float \<Rightarrow> np_float \<Rightarrow> bool" where
  "np_less (Finite x) (Finite y) = (x < y)"
| "np_less (Finite x) PosInf = True"
| "np_less NegInf (Finite y) = True"
| "np_less NegInf PosInf = True"
| "np_less x y = False"

fun np_abs :: "np_float \<Rightarrow> np_float" where
  "np_abs (Finite x) = Finite \<bar>x\<bar>"
| "np_abs PosInf = PosInf"
| "np_abs NegInf = PosInf"
| "np_abs NaN = NaN"

text \<open>The rounded operations \<open>+\<close>, \<open>-\<close>, \<open>*\<close> and \<open>%\<close> of \<open>float64\<close>.\<close>

record float_ops =
  fl_add :: "np_float \<Rightarrow> np_float \<Rightarrow> np_float"
  fl_sub :: "np_float \<Rightarrow> np_float \<Rightarrow> np_float"
  fl_mul :: "np_float \<Rightarrow> np_float \<Rightarrow> np_float"
  fl_mod :: "np_float \<Rightarrow> np_float \<Rightarrow> np_float"

section \<open>CPMG phase cycle (chemex/experiments/cpmg\_hn\_dq\_zq.py)\<close>

text \<open>
  \<open>ncycs_to_nu_cpmgs\<close> on one cycle count: the array keeps the count only when it is
  positive, so the result has one entry or none. The entry is the quotient
  \<open>ncyc / time_t2\<close> as numpy computes it from the integer count and the float
  \<open>time_t2\<close>; \<open>true_divide\<close> is that rounded division, a parameter.
\<close>

definition ncycs_to_nu_cpmgs :: "(int \<Rightarrow> real \<Rightarrow> np_float) \<Rightarrow> real \<Rightarrow> int \<Rightarrow> np_float list" where
  "ncycs_to_nu_cpmgs true_divide time_t2 ncyc =
     (if ncyc > 0 then [true_divide ncyc time_t2] else [])"

definition np_arange :: "int \<Rightarrow> int list" where
  "np_arange n = map int [0..<nat n]"

definition np_flip :: "'a list \<Rightarrow> 'a list" where
  "np_flip xs = rev xs"

text \<open>\<open>np.take(a, indices, mode="wrap")\<close>.\<close>

definition np_take_wrap :: "'a list \<Rightarrow> int list \<Rightarrow> 'a list" where
  "np_take_wrap a indices = map (\<lambda>i. a ! nat (i mod int (length a))) indices"

text \<open>
  \<open>PulseSeq._get_phases\<close>. For a count that is not positive the array of frequencies is
  empty and what the comparison of an empty array yields depends on the numpy version;
  the model gives \<open>None\<close> there.
\<close>

definition get_phases ::
  "(int \<Rightarrow> real \<Rightarrow> np_float) \<Rightarrow> real \<Rightarrow> int \<Rightarrow> (int list \<times> int list) option" where
  "get_phases true_divide time_t2 ncyc =
     (case ncycs_to_nu_cpmgs true_divide time_t2 ncyc of
        [nu_cpmg] \<Rightarrow>
          (let (cp_phases1, cp_phases2) =
                 (if np_less nu_cpmg (Finite 51.0) then ([0, 1, 0, 1], [1, 0, 1, 0])
                  else if np_less nu_cpmg (Finite 255.0) then ([0], [1])
                  else ([0, 1, 0, 1, 1, 0, 1, 0], [1, 0, 1, 0, 0, 1, 0, 1]))
           in Some (np_take_wrap cp_phases1 (np_flip (np_arange (2 * ncyc))),
                    np_take_wrap cp_phases2 (np_flip (np_arange (2 * ncyc)))))
      | _ \<Rightarrow> None)"

section \<open>CEST profiles (chemex/containers/cest.py)\<close>

subsection \<open>numpy operations\<close>

datatype py_error = IndexError | ValueError | KeyError

definition res_bind :: "py_error + 'a \<Rightarrow> ('a \<Rightarrow> py_error + 'b) \<Rightarrow> py_error + 'b" where
  "res_bind m f = (case m of Inl e \<Rightarrow> Inl e | Inr x \<Rightarrow> f x)"

text \<open>\<open>a[m]\<close> with a boolean array \<open>m\<close>: the lengths must agree.\<close>

definition np_bool_index :: "'a list \<Rightarrow> bool list \<Rightarrow> py_error + 'a list" where
  "np_bool_index a m =
     (if length m = length a then Inr (map fst (filter snd (zip a m))) else Inl IndexError)"

text \<open>
  An elementwise operation on two one-dimensional arrays: equal lengths, or one of them
  of length one (broadcast); any other pair of shapes raises \<open>ValueError\<close>.
\<close>

definition np_broadcast2 ::
  "('a \<Rightarrow> 'b \<Rightarrow> 'c) \<Rightarrow> 'a list \<Rightarrow> 'b list \<Rightarrow> py_error + 'c list" where
  "np_broadcast2 f xs ys =
     (if length xs = length ys then Inr (map2 f xs ys)
      else if length xs = 1 then Inr (map (f (hd xs)) ys)
      else if length ys = 1 then Inr (map (\<lambda>x. f x (hd ys)) xs)
      else Inl ValueError)"

text \<open>
  \<open>a[m] = v\<close> with a boolean array \<open>m\<close> and a scalar \<open>v\<close>, and \<open>a[...] = vs\<close> with an
  array \<open>vs\<close> of the same length or of length one.
\<close>

definition np_bool_assign :: "'a list \<Rightarrow> bool list \<Rightarrow> 'a \<Rightarrow> py_error + 'a list" where
  "np_bool_assign a m v =
     (if length m = length a then Inr (map2 (\<lambda>x b. if b then v else x) a m)
      else Inl IndexError)"

definition np_assign :: "nat \<Rightarrow> 'a list \<Rightarrow> py_error + 'a list" where
  "np_assign n vs =
     (if length vs = n then Inr vs
      else if length vs = 1 then Inr (replicate n (hd vs))
      else Inl ValueError)"

subsection \<open>CestData\<close>

record CestPoint =
  offsets :: real
  intensities :: real
  errors :: real

record CestData =
  points :: "CestPoint list"
  refs :: "bool list"
  mask :: "bool list"
  filter_offsets :: "(real \<times> real) list"

text \<open>
  \<open>CestData.from_file\<close> after \<open>np.loadtxt\<close> has read the points (reading the file is
  outside the model).
\<close>

definition CestData_from_points ::
  "CestPoint list \<Rightarrow> (real \<times> real) list \<Rightarrow> int list \<Rightarrow> bool \<Rightarrow> CestData" where
  "CestData_from_points pts filter_offsets0 filter_planes filter_ref_planes =
     (let refs0 = map (\<lambda>p. \<bar>offsets p\<bar> \<ge> 10000) pts;
          planes_to_filter = filter (\<lambda>index. 0 \<le> index \<and> index < int (length pts)) filter_planes;
          mask0 = map (\<lambda>k. int k \<notin> set planes_to_filter) [0..<length pts];
          mask1 = (if filter_ref_planes then map2 (\<lambda>m r. if r then False else m) mask0 refs0
                   else mask0)
      in \<lparr>points = pts, refs = refs0, mask = mask1, filter_offsets = filter_offsets0\<rparr>)"

text \<open>The three arrays of a \<open>CestData\<close> built by \<open>from_file\<close> have one length.\<close>

definition CestData_ok :: "CestData \<Rightarrow> bool" where
  "CestData_ok d = (length (refs d) = length (points d) \<and> length (mask d) = length (points d))"

text \<open>
  The test of one filter window \<open>(filter_offset, filter_bandwidth)\<close> on one entry of
  \<open>offsets\<close> (the point's offset minus \<open>cs_offset\<close>, as computed), with the optional
  DANTE sweep width: \<open>offsets_ = offsets - filter_offset\<close>, wrapped when \<open>sw_dante\<close> is
  given, and \<open>abs(offsets_) < filter_bandwidth * 0.5\<close>.
\<close>

definition mask_filter_at ::
  "float_ops \<Rightarrow> real option \<Rightarrow> real \<times> real \<Rightarrow> np_float \<Rightarrow> bool" where
  "mask_filter_at fl sw_dante w offset =
     (case w of
        (filter_offset, filter_bandwidth) \<Rightarrow>
          (let shifted = fl_sub fl offset (Finite filter_offset);
               wrapped =
                 (case sw_dante of
                    None \<Rightarrow> shifted
                  | Some sw \<Rightarrow>
                      fl_sub fl
                        (fl_mod fl (fl_add fl shifted (fl_mul fl (Finite 0.5) (Finite sw)))
                           (Finite sw))
                        (fl_mul fl (Finite 0.5) (Finite sw)))
           in np_less (np_abs wrapped) (fl_mul fl (Finite filter_bandwidth) (Finite 0.5))))"

text \<open>The loop of \<open>CestData.filter\<close> over the filter windows; it assigns to the mask.\<close>

fun filter_loop ::
  "float_ops \<Rightarrow> real option \<Rightarrow> np_float list \<Rightarrow> (real \<times> real) list \<Rightarrow> bool list
    \<Rightarrow> py_error + bool list" where
  "filter_loop fl sw_dante offs [] msk = Inr msk"
| "filter_loop fl sw_dante offs (w # ws) msk =
     res_bind (np_bool_assign msk (map (mask_filter_at fl sw_dante w) offs) False)
       (filter_loop fl sw_dante offs ws)"

definition CestData_filter ::
  "float_ops \<Rightarrow> CestData \<Rightarrow> real \<Rightarrow> real option \<Rightarrow> py_error + CestData" where
  "CestData_filter fl d cs_offset sw_dante =
     res_bind
       (filter_loop fl sw_dante
          (map (\<lambda>p. fl_sub fl (Finite (offsets p)) (Finite cs_offset)) (points d))
          (filter_offsets d) (mask d))
       (\<lambda>msk. Inr (d\<lparr>mask := msk\<rparr>))"

text \<open>
  \<open>CestData.monte_carlo\<close>; \<open>randn\<close> is the source of standard normal deviates
  (\<open>np.random.randn(n)\<close> takes the next \<open>n\<close>).
\<close>

definition CestData_monte_carlo ::
  "CestData \<Rightarrow> real list \<Rightarrow> (nat \<Rightarrow> real) \<Rightarrow> py_error + CestData" where
  "CestData_monte_carlo d intensities_ref randn =
     res_bind
       (np_broadcast2 (*) (map randn [0..<length (points d)]) (map errors (points d)))
       (\<lambda>noise.
          res_bind (np_broadcast2 (+) intensities_ref noise)
            (\<lambda>new.
               res_bind (np_assign (length (points d)) new)
                 (\<lambda>vs. Inr (d\<lparr>points := map2 (\<lambda>p v. p\<lparr>intensities := v\<rparr>) (points d) vs\<rparr>))))"

text \<open>
  \<open>np.random.choice(a, n)\<close>: \<open>n\<close> draws with replacement; \<open>draw\<close> is the source
  of raw random integers. An empty \<open>a\<close> is accepted only when no sample is taken.
\<close>

definition np_random_choice ::
  "nat list \<Rightarrow> nat \<Rightarrow> (nat \<Rightarrow> nat) \<Rightarrow> py_error + nat list" where
  "np_random_choice a n draw =
     (if a = [] then (if n = 0 then Inr [] else Inl ValueError)
      else Inr (map (\<lambda>k. a ! (draw k mod length a)) [0..<n]))"

text \<open>
  The sorted list \<open>bs_indexes\<close> of \<open>CestData.bootstrap\<close>. The second call of
  \<open>np.random.choice\<close> continues the random source where the first one stopped.
\<close>

definition bootstrap_indexes :: "CestData \<Rightarrow> (nat \<Rightarrow> nat) \<Rightarrow> py_error + nat list" where
  "bootstrap_indexes d draw =
     (let indexes = [0..<length (points d)]
      in res_bind (np_broadcast2 (\<and>) (refs d) (mask d))
           (\<lambda>rm. res_bind (np_bool_index indexes rm)
              (\<lambda>pool1. res_bind (np_broadcast2 (\<and>) (map Not (refs d)) (mask d))
                 (\<lambda>nrm. res_bind (np_bool_index indexes nrm)
                    (\<lambda>pool2.
                       res_bind
                         (if pool1 \<noteq> [] then np_random_choice pool1 (length pool1) draw
                          else Inr [])
                         (\<lambda>bs1.
                            res_bind
                              (np_random_choice pool2 (length pool2)
                                 (\<lambda>k. draw (k + length bs1)))
                              (\<lambda>bs2. Inr (sort (bs1 @ bs2)))))))))"

definition CestData_bootstrap :: "CestData \<Rightarrow> (nat \<Rightarrow> nat) \<Rightarrow> py_error + CestData" where
  "CestData_bootstrap d draw =
     res_bind (bootstrap_indexes d draw)
       (\<lambda>bs_indexes. Inr (d\<lparr>points := map (\<lambda>i. points d ! i) bs_indexes\<rparr>))"

subsection \<open>CestProfile\<close>

text \<open>
  The pulse sequence bound to a profile (for instance the one of
  chemex/experiments/cest\_15n\_cw.py) is used through \<open>calculate\<close> and
  \<open>ppms_to_offsets\<close>, which run the propagator and are taken as parameters, and through
  the optional attribute \<open>sw_dante\<close>.
\<close>

record PulseSeq =
  pseq_calculate :: "real list \<Rightarrow> (string \<times> real) list \<Rightarrow> real list"
  pseq_ppms_to_offsets :: "real list \<Rightarrow> real list"
  pseq_sw_dante :: "real option"

record CestProfile =
  profile_name :: string
  profile_data :: CestData
  profile_pulse_seq :: PulseSeq
  profile_par_names :: "(string \<times> string) list"
  profile_params_default :: Parameters

text \<open>\<open>_get_parvals\<close>: \<open>params[name2]\<close> raises \<open>KeyError\<close> for a missing name.\<close>

fun get_parvals ::
  "(string \<times> string) list \<Rightarrow> Parameters \<Rightarrow> py_error + (string \<times> real) list" where
  "get_parvals [] params = Inr []"
| "get_parvals ((name1, name2) # rest) params =
     (case map_of params name2 of
        None \<Rightarrow> Inl KeyError
      | Some p \<Rightarrow>
          res_bind (get_parvals rest params) (\<lambda>vs. Inr ((name1, Parameter_value p) # vs)))"

text \<open>
  \<open>CestProfile.calculate\<close>. \<open>get_scale\<close> (chemex/containers/helper.py) computes the
  scale factor from the intensities, the errors and the calculated values it is given;
  it is taken as a parameter.
\<close>

definition CestProfile_calculate ::
  "(real list \<Rightarrow> real list \<Rightarrow> real list \<Rightarrow> real) \<Rightarrow> CestProfile \<Rightarrow> Parameters
    \<Rightarrow> real list option \<Rightarrow> py_error + real list" where
  "CestProfile_calculate get_scale self params offsets_arg =
     res_bind (np_bool_index (points (profile_data self)) (mask (profile_data self)))
       (\<lambda>data.
          res_bind (get_parvals (profile_par_names self) params)
            (\<lambda>par_values.
               (let calculated =
                      pseq_calculate (profile_pulse_seq self) (map offsets data) par_values;
                    scale = get_scale (map intensities data) (map errors data) calculated;
                    calculated1 =
                      (case offsets_arg of
                         None \<Rightarrow> calculated
                       | Some offs \<Rightarrow> pseq_calculate (profile_pulse_seq self) offs par_values)
                in Inr (map (\<lambda>c. scale * c) calculated1))))"

definition CestProfile_residuals ::
  "(real list \<Rightarrow> real list \<Rightarrow> real list \<Rightarrow> real) \<Rightarrow> CestProfile \<Rightarrow> Parameters
    \<Rightarrow> py_error + real list" where
  "CestProfile_residuals get_scale self params =
     res_bind (np_bool_index (points (profile_data self)) (mask (profile_data self)))
       (\<lambda>data.
          res_bind (CestProfile_calculate get_scale self params None)
            (\<lambda>calculated.
               res_bind (np_broadcast2 (-) calculated (map intensities data))
                 (\<lambda>diff. np_broadcast2 (/) diff (map errors data))))"

text \<open>
  \<open>_get_cs_values\<close>: the parameters named by \<open>cs_i_a\<close> .. \<open>cs_i_d\<close> in
  \<open>par_names\<close>, by value.
\<close>

fun get_cs_values ::
  "(string \<times> string) list \<Rightarrow> string list \<Rightarrow> Parameters \<Rightarrow> py_error + real list" where
  "get_cs_values par_names [] params = Inr []"
| "get_cs_values par_names (name # rest) params =
     (case map_of par_names name of
        None \<Rightarrow> get_cs_values par_names rest params
      | Some fname \<Rightarrow>
          (case map_of params fname of
             None \<Rightarrow> Inl KeyError
           | Some p \<Rightarrow>
               res_bind (get_cs_values par_names rest params)
                 (\<lambda>vs. Inr (Parameter_value p # vs))))"

definition cs_names :: "string list" where
  "cs_names = map (\<lambda>state. ''cs_i_'' @ [state]) ''abcd''"

text \<open>\<open>CestProfile.filter\<close>: the mask of the profile's data is assigned to.\<close>

definition CestProfile_filter ::
  "float_ops \<Rightarrow> CestProfile \<Rightarrow> Parameters \<Rightarrow> py_error + CestProfile" where
  "CestProfile_filter fl self params =
     res_bind (get_cs_values (profile_par_names self) cs_names params)
       (\<lambda>cs_values.
          (case pseq_ppms_to_offsets (profile_pulse_seq self) cs_values of
             [] \<Rightarrow> Inl IndexError
           | cs_offset # _ \<Rightarrow>
               res_bind
                 (CestData_filter fl (profile_data self) cs_offset
                    (pseq_sw_dante (profile_pulse_seq self)))
                 (\<lambda>d. Inr (self\<lparr>profile_data := d\<rparr>))))"

definition CestProfile_monte_carlo ::
  "(real list \<Rightarrow> real list \<Rightarrow> real list \<Rightarrow> real) \<Rightarrow> CestProfile \<Rightarrow> Parameters
    \<Rightarrow> (nat \<Rightarrow> real) \<Rightarrow> py_error + CestProfile" where
  "CestProfile_monte_carlo get_scale self params randn =
     res_bind (CestProfile_calculate get_scale self params None)
       (\<lambda>intensities_ref.
          res_bind (CestData_monte_carlo (profile_data self) intensities_ref randn)
            (\<lambda>d. Inr (self\<lparr>profile_data := d\<rparr>)))"

definition CestProfile_bootstrap ::
  "CestProfile \<Rightarrow> (nat \<Rightarrow> nat) \<Rightarrow> py_error + CestProfile" where
  "CestProfile_bootstrap self draw =
     res_bind (CestData_bootstrap (profile_data self) draw)
       (\<lambda>d. Inr (self\<lparr>profile_data := d\<rparr>))"

section \<open>Example inputs\<close>

subsection \<open>Arithmetic without rounding\<close>

text \<open>
  Exact arithmetic on finite values. It agrees with \<open>float64\<close> arithmetic wherever the
  operands and the exact result are \<open>float64\<close> values, as they are for the small
  integers, halves and eighths that the examples below put into it. The remainder has the sign of the divisor and is \<open>nan\<close> for a
  zero divisor; a quotient by zero is \<open>inf\<close> for a positive count.
\<close>

definition exact2 :: "(real \<Rightarrow> real \<Rightarrow> real) \<Rightarrow> np_float \<Rightarrow> np_float \<Rightarrow> np_float" where
  "exact2 f a b = (case (a, b) of (Finite x, Finite y) \<Rightarrow> Finite (f x y) | _ \<Rightarrow> NaN)"

definition exact_mod :: "np_float \<Rightarrow> np_float \<Rightarrow> np_float" where
  "exact_mod a b =
     (case (a, b) of
        (Finite x, Finite y) \<Rightarrow> (if y = 0 then NaN else Finite (x - y * of_int \<lfloor>x / y\<rfloor>))
      | _ \<Rightarrow> NaN)"

definition exact_ops :: float_ops where
  "exact_ops = \<lparr>fl_add = exact2 (+), fl_sub = exact2 (-), fl_mul = exact2 (*), fl_mod = exact_mod\<rparr>"

definition exact_true_divide :: "int \<Rightarrow> real \<Rightarrow> np_float" where
  "exact_true_divide n t = (if t = 0 then PosInf else Finite (real_of_int n / t))"

subsection \<open>Parameters\<close>

text \<open>The exchange rate \<open>kex_ab\<close> as four parameter objects: fixed or varying, with different values.\<close>

definition kex_fixed1 :: Parameter where
  "kex_fixed1 = \<lparr>Parameter_name = ''kex_ab'', Parameter_value = 1, Parameter_vary = False,
     Parameter_min = Some 0, Parameter_max = None, Parameter_expr = []\<rparr>"

definition kex_fixed5 :: Parameter where
  "kex_fixed5 = \<lparr>Parameter_name = ''kex_ab'', Parameter_value = 5, Parameter_vary = False,
     Parameter_min = Some 0, Parameter_max = None, Parameter_expr = []\<rparr>"

definition kex_vary2 :: Parameter where
  "kex_vary2 = \<lparr>Parameter_name = ''kex_ab'', Parameter_value = 2, Parameter_vary = True,
     Parameter_min = Some 0, Parameter_max = None, Parameter_expr = []\<rparr>"

definition kex_vary3 :: Parameter where
  "kex_vary3 = \<lparr>Parameter_name = ''kex_ab'', Parameter_value = 3, Parameter_vary = True,
     Parameter_min = Some 0, Parameter_max = None, Parameter_expr = []\<rparr>"

subsection \<open>A CEST data set\<close>

text \<open>
  Four points, the first a reference point (offset 20000 Hz), and one filter window of
  bandwidth 100 Hz centred at 100 Hz.
\<close>

definition cest_points :: "CestPoint list" where
  "cest_points =
     [\<lparr>offsets = 20000, intensities = 10, errors = 1 / 10\<rparr>,
      \<lparr>offsets = 100, intensities = 4, errors = 1 / 10\<rparr>,
      \<lparr>offsets = 150, intensities = 6, errors = 1 / 5\<rparr>,
      \<lparr>offsets = 1100, intensities = 9, errors = 1 / 10\<rparr>]"

definition cest_data :: CestData where
  "cest_data = CestData_from_points cest_points [(100, 100)] [] False"

subsection \<open>A CEST profile\<close>

text \<open>
  Modelled from the spec: \<open>get_scale\<close> of chemex/containers/helper.py is not among the
  sources; the spec describes it as the closed-form least-squares scale factor between
  model and data, which for weights \<open>1 / error\<^sup>2\<close> is
  \<open>\<Sum> I c / e\<^sup>2\<close> over \<open>\<Sum> c\<^sup>2 / e\<^sup>2\<close>. It is used as an example argument only.
\<close>

definition get_scale_lsq :: "real list \<Rightarrow> real list \<Rightarrow> real list \<Rightarrow> real" where
  "get_scale_lsq ints errs calc =
     sum_list (map (\<lambda>(i, e, c). i * c / (e * e)) (zip ints (zip errs calc)))
       / sum_list (map (\<lambda>(e, c). c * c / (e * e)) (zip errs calc))"

text \<open>
  A pulse sequence that, like the one of cest\_15n\_cw.py, computes one value per offset
  and returns the starting magnetisation for reference offsets.
\<close>

definition example_pulse_seq :: PulseSeq where
  "example_pulse_seq =
     \<lparr>pseq_calculate = (\<lambda>offs par_values. map (\<lambda>offset. if \<bar>offset\<bar> < 10000 then 1 / 2 else 1) offs),
      pseq_ppms_to_offsets = (\<lambda>ppms. map (\<lambda>ppm. 50 * ppm) ppms),
      pseq_sw_dante = None\<rparr>"

definition example_params :: Parameters where
  "example_params =
     [(''CS_A'', \<lparr>Parameter_name = ''CS_A'', Parameter_value = 2, Parameter_vary = True,
        Parameter_min = None, Parameter_max = None, Parameter_expr = []\<rparr>)]"

text \<open>The data set above with plane 1 filtered out when the file is read.\<close>

definition cest_data_masked :: CestData where
  "cest_data_masked = CestData_from_points cest_points [(100, 100)] [1] False"

definition example_profile :: CestProfile where
  "example_profile =
     \<lparr>profile_name = ''G23N-H'', profile_data = cest_data_masked,
      profile_pulse_seq = example_pulse_seq, profile_par_names = [(''cs_i_a'', ''CS_A'')],
      profile_params_default = example_params\<rparr>"

subsection \<open>Bootstrap inputs\<close>

text \<open>
  The data set above read with \<open>filter_ref_planes = True\<close>, which masks its only
  reference point, and a source of raw random integers.
\<close>

definition cest_data_noref :: CestData where
  "cest_data_noref = CestData_from_points cest_points [(100, 100)] [] True"

definition draw_example :: "nat \<Rightarrow> nat" where
  "draw_example k = 7 * k + 3"

subsection \<open>A basis\<close>

text \<open>
  The \<open>atoms\<close> of the two-spin basis that cest\_15n\_cw.py configures:
  \<open>{"i": "n", "s": "h"}\<close>.
\<close>

definition basis_nh :: "(string \<times> string) list" where
  "basis_nh = [(''i'', ''n''), (''s'', ''h'')]"

subsection \<open>Spin systems\<close>

text \<open>
  Receivers of \<open>complete\<close>, each parsed into an empty store: a residue whose atom is
  wildcarded, two residues of which the second has a wildcarded atom, a spin system with
  an explicit second atom that is not a proton, and one with a single spin.
\<close>

definition receiver_G23 :: "store \<times> SpinSystem" where
  "receiver_G23 = SpinSystem_init (Str ''G23'') []"

definition receiver_G24 :: "store \<times> SpinSystem" where
  "receiver_G24 = SpinSystem_init (Str ''G23N-G24'') []"

definition receiver_CA :: "store \<times> SpinSystem" where
  "receiver_CA = SpinSystem_init (Str ''G23N-CA'') []"

definition receiver_N :: "store \<times> SpinSystem" where
  "receiver_N = SpinSystem_init (Str ''G23N'') []"

text \<open>The atom names of a spin system, alias by alias.\<close>

definition atom_names :: "SpinSystem \<Rightarrow> (string \<times> string) list" where
  "atom_names ss = map (\<lambda>(alias, a). (alias, Atom_name a)) (SpinSystem_atoms ss)"

text \<open>\<open>SpinSystem(label).name\<close> for a label parsed into an empty store.\<close>

definition parsed_name :: "string \<Rightarrow> string" where
  "parsed_name l = SpinSystem_name (snd (SpinSystem_init (Str l) []))"

section \<open>Verified properties\<close>

subsection \<open>Evaluation of the constructors on concrete labels\<close>

lemma Atom_init_empty: "Atom_init [] = \<lparr>Atom_name = [], Atom_nucleus = None\<rparr>"
  by code_simp

lemma Atom_init_HN: "Atom_init ''HN'' = \<lparr>Atom_name = ''H'', Atom_nucleus = Some H1\<rparr>"
  by code_simp

lemma Group_init_empty:
  "Group_init [] =
     \<lparr>Group_name = [], Group_symbol = [], Group_number = NO_NUMBER, Group_suffix = []\<rparr>"
  by code_simp

lemma Group_init_GLY23:
  "Group_init ''GLY23'' =
     \<lparr>Group_name = ''G23'', Group_symbol = ''G'', Group_number = 23, Group_suffix = []\<rparr>"
  by code_simp

lemma Group_init_23:
  "Group_init ''23'' =
     \<lparr>Group_name = ''23'', Group_symbol = [], Group_number = 23, Group_suffix = []\<rparr>"
  by code_simp

lemma Group_init_G23:
  "Group_init ''G23'' =
     \<lparr>Group_name = ''G23'', Group_symbol = ''G'', Group_number = 23, Group_suffix = []\<rparr>"
  by code_simp

lemma Group_init_G24:
  "Group_init ''G24'' =
     \<lparr>Group_name = ''G24'', Group_symbol = ''G'', Group_number = 24, Group_suffix = []\<rparr>"
  by code_simp

subsection \<open>Wildcard matching of atoms and groups\<close>

text \<open>
  Claim C9 (amended). \<open>Atom.match\<close> and \<open>Group.match\<close> are asymmetric wildcard tests,
  not equality, with the receiver as the pattern. For atoms: a pattern with a blank name
  matches every candidate, and a pattern with a name never matches a candidate whose name
  is blank. For groups the three fields are tested one by one and all three tests must
  pass: \<open>match(pattern, candidate)\<close> is true exactly when each field of the pattern
  (symbol, number, suffix) is blank or equal to the candidate's. So a blank pattern field
  matches whatever the candidate holds in that field (the result does not depend on it),
  and the match is true when the pattern's other fields are blank or agree with the
  candidate's; a group blank in all three fields matches every group. In the other
  direction, a pattern field that is set never matches a candidate whose field is blank.
\<close>

theorem C9_match_asymmetric:
  "(Atom_name p = [] \<longrightarrow> Atom_match p c)
 \<and> (Atom_name p \<noteq> [] \<and> Atom_name c = [] \<longrightarrow> \<not> Atom_match p c)
 \<and> Group_match gp gc =
       ((Group_symbol gp = [] \<or> Group_symbol gc = Group_symbol gp)
      \<and> (Group_number gp = NO_NUMBER \<or> Group_number gc = Group_number gp)
      \<and> (Group_suffix gp = [] \<or> Group_suffix gc = Group_suffix gp))
 \<and> (Group_symbol gp = [] \<and> Group_number gc = Group_number gp
      \<and> Group_suffix gc = Group_suffix gp \<longrightarrow> Group_match gp gc)
 \<and> (Group_number gp = NO_NUMBER \<and> Group_symbol gc = Group_symbol gp
      \<and> Group_suffix gc = Group_suffix gp \<longrightarrow> Group_match gp gc)
 \<and> (Group_suffix gp = [] \<and> Group_symbol gc = Group_symbol gp
      \<and> Group_number gc = Group_number gp \<longrightarrow> Group_match gp gc)
 \<and> (Group_symbol gp = [] \<longrightarrow>
       Group_match gp (gc\<lparr>Group_symbol := s\<rparr>) = Group_match gp gc)
 \<and> (Group_number gp = NO_NUMBER \<longrightarrow>
       Group_match gp (gc\<lparr>Group_number := n\<rparr>) = Group_match gp gc)
 \<and> (Group_suffix gp = [] \<longrightarrow>
       Group_match gp (gc\<lparr>Group_suffix := x\<rparr>) = Group_match gp gc)
 \<and> (Group_symbol gp = [] \<and> Group_number gp = NO_NUMBER \<and> Group_suffix gp = [] \<longrightarrow>
       Group_match gp gc)
 \<and> (Group_symbol gp \<noteq> [] \<and> Group_symbol gc = [] \<longrightarrow> \<not> Group_match gp gc)
 \<and> (Group_number gp \<noteq> NO_NUMBER \<and> Group_number gc = NO_NUMBER \<longrightarrow> \<not> Group_match gp gc)
 \<and> (Group_suffix gp \<noteq> [] \<and> Group_suffix gc = [] \<longrightarrow> \<not> Group_match gp gc)"
  by (cases "Atom_name p") (auto simp: Atom_match_def Group_match_def)

theorem C9_match_asymmetric_witness:
  "Atom_match (Atom_init []) (Atom_init ''HN'')
 \<and> \<not> Atom_match (Atom_init ''HN'') (Atom_init [])
 \<and> Group_match (Group_init []) (Group_init ''GLY23'')
 \<and> \<not> Group_match (Group_init ''GLY23'') (Group_init [])
 \<and> Group_match (Group_init ''23'') (Group_init ''G23'')
 \<and> \<not> Group_match (Group_init ''G23'') (Group_init ''23'')"
  using C9_match_asymmetric [where p = "Atom_init []" and c = "Atom_init ''HN''"
          and gp = "Group_init []" and gc = "Group_init ''GLY23''"]
        C9_match_asymmetric [where p = "Atom_init ''HN''" and c = "Atom_init []"
          and gp = "Group_init ''GLY23''" and gc = "Group_init []"]
        C9_match_asymmetric [where gp = "Group_init ''23''" and gc = "Group_init ''G23''"]
        C9_match_asymmetric [where gp = "Group_init ''G23''" and gc = "Group_init ''23''"]
  by (simp add: Atom_init_empty Atom_init_HN Group_init_empty Group_init_GLY23
      Group_init_23 Group_init_G23 NO_NUMBER_def)

text \<open>
  Counterexample to claim C9 as stated: the pattern \<open>Group("23")\<close> has a blank symbol
  and the candidate \<open>Group("G24")\<close> a concrete one, \<open>G\<close>. The claim says the match is
  true for every such pair; the numbers differ and the match is false.
\<close>

theorem C9_blank_symbol_counterexample:
  "Group_symbol (Group_init ''23'') = []
 \<and> Group_symbol (Group_init ''G24'') = ''G''
 \<and> \<not> Group_match (Group_init ''23'') (Group_init ''G24'')"
  by (simp add: Group_init_23 Group_init_G24 Group_match_def NO_NUMBER_def)

subsection \<open>CPMG phase cycle\<close>

lemma take_wrap_flip:
  "np_take_wrap a (np_flip (np_arange n)) = rev (map (\<lambda>j. a ! (j mod length a)) [0..<nat n])"
  by (simp add: np_take_wrap_def np_flip_def np_arange_def rev_map comp_def zmod_int [symmetric])

lemma upt_4: "[0..<4] = [0, 1, 2, 3]"
  by (simp add: upt_rec)

lemma upt_6: "[0..<6] = [0, 1, 2, 3, 4, 5]"
  by (simp add: upt_rec)

text \<open>
  Claim C5. For a positive cycle count \<open>ncyc\<close>, \<open>_get_phases\<close> selects the phase lists
  from \<open>\<nu>\<^sub>C\<^sub>P\<^sub>M\<^sub>G\<close>, the quotient \<open>ncyc / time_t2\<close> as the machine computes it, in three
  regimes: a value below 51.0 gives the four-phase lists \<open>[0,1,0,1]\<close> and \<open>[1,0,1,0]\<close>,
  a value from 51.0 (included) to 255.0 (excluded) the one-phase lists \<open>[0]\<close> and
  \<open>[1]\<close>, a value from 255.0 on (\<open>inf\<close> included) the eight-phase lists
  \<open>[0,1,0,1,1,0,1,0]\<close> and \<open>[1,0,1,0,0,1,0,1]\<close>. Each returned array is the chosen list
  repeated cyclically to length \<open>2 * ncyc\<close> and then reversed. In particular a computed
  \<open>\<nu>\<^sub>C\<^sub>P\<^sub>M\<^sub>G\<close> of 40 selects the four-phase lists, 150 the one-phase lists and 300 the
  eight-phase lists. The statement holds for every rounding of the division: the regime
  follows the computed quotient, also at the boundaries.
\<close>

theorem C5_phase_cycle:
  assumes "0 < ncyc"
  shows "get_phases true_divide time_t2 ncyc =
     (let nu_cpmg = true_divide ncyc time_t2;
          cp = (if np_less nu_cpmg (Finite 51) then ([0, 1, 0, 1], [1, 0, 1, 0])
                else if np_less nu_cpmg (Finite 255) then ([0], [1])
                else ([0, 1, 0, 1, 1, 0, 1, 0], [1, 0, 1, 0, 0, 1, 0, 1]))
      in Some (rev (map (\<lambda>j. fst cp ! (j mod length (fst cp))) [0..<nat (2 * ncyc)]),
               rev (map (\<lambda>j. snd cp ! (j mod length (snd cp))) [0..<nat (2 * ncyc)])))
   \<and> (\<forall>nu. true_divide ncyc time_t2 = Finite nu \<and> nu < 51 \<longrightarrow>
         get_phases true_divide time_t2 ncyc =
           Some (rev (map (\<lambda>j. [0, 1, 0, 1] ! (j mod 4)) [0..<nat (2 * ncyc)]),
                 rev (map (\<lambda>j. [1, 0, 1, 0] ! (j mod 4)) [0..<nat (2 * ncyc)])))
   \<and> (\<forall>nu. true_divide ncyc time_t2 = Finite nu \<and> 51 \<le> nu \<and> nu < 255 \<longrightarrow>
         get_phases true_divide time_t2 ncyc =
           Some (rev (map (\<lambda>j. [0] ! (j mod 1)) [0..<nat (2 * ncyc)]),
                 rev (map (\<lambda>j. [1] ! (j mod 1)) [0..<nat (2 * ncyc)])))
   \<and> (\<forall>nu. true_divide ncyc time_t2 = Finite nu \<and> 255 \<le> nu \<longrightarrow>
         get_phases true_divide time_t2 ncyc =
           Some (rev (map (\<lambda>j. [0, 1, 0, 1, 1, 0, 1, 0] ! (j mod 8)) [0..<nat (2 * ncyc)]),
                 rev (map (\<lambda>j. [1, 0, 1, 0, 0, 1, 0, 1] ! (j mod 8)) [0..<nat (2 * ncyc)])))
   \<and> (true_divide ncyc time_t2 = PosInf \<longrightarrow>
         get_phases true_divide time_t2 ncyc =
           Some (rev (map (\<lambda>j. [0, 1, 0, 1, 1, 0, 1, 0] ! (j mod 8)) [0..<nat (2 * ncyc)]),
                 rev (map (\<lambda>j. [1, 0, 1, 0, 0, 1, 0, 1] ! (j mod 8)) [0..<nat (2 * ncyc)])))"
proof -
  have gen: "get_phases true_divide time_t2 ncyc =
     (let nu_cpmg = true_divide ncyc time_t2;
          cp = (if np_less nu_cpmg (Finite 51) then ([0, 1, 0, 1], [1, 0, 1, 0])
                else if np_less nu_cpmg (Finite 255) then ([0], [1])
                else ([0, 1, 0, 1, 1, 0, 1, 0], [1, 0, 1, 0, 0, 1, 0, 1]))
      in Some (rev (map (\<lambda>j. fst cp ! (j mod length (fst cp))) [0..<nat (2 * ncyc)]),
               rev (map (\<lambda>j. snd cp ! (j mod length (snd cp))) [0..<nat (2 * ncyc)])))"
    using assms
    by (simp add: get_phases_def ncycs_to_nu_cpmgs_def take_wrap_flip Let_def)
  show ?thesis
    unfolding gen by (simp add: Let_def)
qed

theorem C5_phase_cycle_witness:
  "exact_true_divide 5 (1 / 8) = Finite 40
 \<and> get_phases exact_true_divide (1 / 8) 5 =
     Some ([1, 0, 1, 0, 1, 0, 1, 0, 1, 0], [0, 1, 0, 1, 0, 1, 0, 1, 0, 1])
 \<and> exact_true_divide 75 (1 / 2) = Finite 150
 \<and> get_phases exact_true_divide (1 / 2) 75 = Some (replicate 150 0, replicate 150 1)
 \<and> exact_true_divide 150 (1 / 2) = Finite 300
 \<and> map_option (\<lambda>(phases1, phases2). (length phases1, take 8 phases1, take 8 phases2))
       (get_phases exact_true_divide (1 / 2) 150)
     = Some (300, [1, 0, 1, 0, 0, 1, 0, 1], [0, 1, 0, 1, 1, 0, 1, 0])"
proof -
  have low: "get_phases exact_true_divide (1 / 8) 5 =
     Some ([1, 0, 1, 0, 1, 0, 1, 0, 1, 0], [0, 1, 0, 1, 0, 1, 0, 1, 0, 1])"
    using C5_phase_cycle [of 5 exact_true_divide "1 / 8"]
    by (simp add: exact_true_divide_def upt_rec)
  have "map (\<lambda>j. [0::int] ! (j mod 1)) [0..<150] = replicate 150 0"
    and "map (\<lambda>j. [1::int] ! (j mod 1)) [0..<150] = replicate 150 1"
    by (simp_all add: map_replicate_const)
  then have mid: "get_phases exact_true_divide (1 / 2) 75 = Some (replicate 150 0, replicate 150 1)"
    using C5_phase_cycle [of 75 exact_true_divide "1 / 2"]
    by (simp add: exact_true_divide_def)
  have "take 8 (rev (map (\<lambda>j. [0::int, 1, 0, 1, 1, 0, 1, 0] ! (j mod 8)) [0..<300]))
          = [1, 0, 1, 0, 0, 1, 0, 1]"
    and "take 8 (rev (map (\<lambda>j. [1::int, 0, 1, 0, 0, 1, 0, 1] ! (j mod 8)) [0..<300]))
          = [0, 1, 0, 1, 1, 0, 1, 0]"
    by code_simp+
  then have high: "map_option (\<lambda>(phases1, phases2). (length phases1, take 8 phases1, take 8 phases2))
       (get_phases exact_true_divide (1 / 2) 150)
     = Some (300, [1, 0, 1, 0, 0, 1, 0, 1], [0, 1, 0, 1, 1, 0, 1, 0])"
    using C5_phase_cycle [of 150 exact_true_divide "1 / 2"]
    by (simp add: exact_true_divide_def)
  show ?thesis
    using low mid high by (simp add: exact_true_divide_def)
qed

subsection \<open>Merging parameter sets\<close>

lemma merge_items_lookup:
  "map_of (merge_items m ps) n =
     (case map_of m n of
        Some p \<Rightarrow> if Parameter_vary p then Some p
                  else (case find Parameter_vary (map snd (filter (\<lambda>(k, q). k = n) ps)) of
                          Some q \<Rightarrow> Some q
                        | None \<Rightarrow> (if filter (\<lambda>(k, q). k = n) ps = [] then Some p
                                    else Some (last (map snd (filter (\<lambda>(k, q). k = n) ps)))))
      | None \<Rightarrow> (case find Parameter_vary (map snd (filter (\<lambda>(k, q). k = n) ps)) of
                          Some q \<Rightarrow> Some q
                        | None \<Rightarrow> (if filter (\<lambda>(k, q). k = n) ps = [] then None
                                    else Some (last (map snd (filter (\<lambda>(k, q). k = n) ps))))))"
proof (induction ps arbitrary: m)
  case Nil
  then show ?case by (simp split: option.splits)
next
  case (Cons a ps)
  obtain k q where a: "a = (k, q)" by (cases a)
  show ?case
    unfolding a
    by (simp add: Cons.IH AList.update_conv' split: option.splits)
qed

lemma merge_items_append: "merge_items m (a @ b) = merge_items (merge_items m a) b"
proof (induction a arbitrary: m)
  case Nil show ?case by simp
next
  case (Cons x a)
  obtain k q where x: "x = (k, q)" by (cases x)
  show ?case unfolding x by (simp add: Cons.IH split: option.splits)
qed

lemma merge_sets_concat: "merge_sets m pl = merge_items m (concat pl)"
  by (induction pl arbitrary: m) (simp_all add: merge_items_append)

lemma update_fresh: "k \<notin> fst ` set al \<Longrightarrow> AList.update k v al = al @ [(k, v)]"
  by (induction al) auto

lemma add_many_id:
  "distinct (map fst (acc @ xs)) \<Longrightarrow> Parameters_ok xs \<Longrightarrow> add_many acc (map snd xs) = acc @ xs"
proof (induction xs arbitrary: acc)
  case Nil show ?case by simp
next
  case (Cons x xs)
  obtain k q where x: "x = (k, q)" by (cases x)
  from Cons.prems have nm: "Parameter_name q = k" and ok: "Parameters_ok xs"
    by (simp_all add: x Parameters_ok_def)
  from Cons.prems have fresh: "k \<notin> fst ` set acc" and d: "distinct (map fst ((acc @ [(k, q)]) @ xs))"
    by (auto simp: x)
  show ?case
    using Cons.IH [OF d ok] by (simp add: x nm update_fresh [OF fresh])
qed

lemma merge_items_distinct: "distinct (map fst m) \<Longrightarrow> distinct (map fst (merge_items m ps))"
proof (induction ps arbitrary: m)
  case Nil then show ?case by simp
next
  case (Cons x ps)
  obtain k q where x: "x = (k, q)" by (cases x)
  show ?case unfolding x using Cons.prems
    by (auto simp: distinct_update intro!: Cons.IH split: option.splits)
qed

lemma Parameters_ok_update:
  "Parameters_ok m \<Longrightarrow> Parameter_name q = k \<Longrightarrow> Parameters_ok (AList.update k q m)"
  by (induction m) (auto simp: Parameters_ok_def)

lemma merge_items_ok: "Parameters_ok m \<Longrightarrow> Parameters_ok ps \<Longrightarrow> Parameters_ok (merge_items m ps)"
proof (induction ps arbitrary: m)
  case Nil then show ?case by simp
next
  case (Cons x ps)
  obtain k q where x: "x = (k, q)" by (cases x)
  from Cons.prems have nm: "Parameter_name q = k" and ok: "Parameters_ok ps"
    by (simp_all add: x Parameters_ok_def)
  show ?case unfolding x using Cons.prems(1) nm ok
    by (auto intro!: Cons.IH Parameters_ok_update split: option.splits)
qed

lemma Parameters_ok_concat: "list_all Parameters_ok pl \<Longrightarrow> Parameters_ok (concat pl)"
  by (induction pl) (auto simp: Parameters_ok_def)

lemma merge_eq: "list_all Parameters_ok pl \<Longrightarrow> merge pl = merge_items [] (concat pl)"
  unfolding merge_def merge_sets_concat
  using add_many_id [of "[]" "merge_items [] (concat pl)"]
        merge_items_distinct [of "[]" "concat pl"]
        merge_items_ok [of "[]" "concat pl"] Parameters_ok_concat [of pl]
  by (simp add: Parameters_ok_def)

lemma single_occurrence:
  "distinct (map fst A) \<Longrightarrow> map_of A n = Some p \<Longrightarrow> map snd (filter (\<lambda>(k, q). k = n) A) = [p]"
proof (induction A)
  case Nil then show ?case by simp
next
  case (Cons x A)
  obtain k q where x: "x = (k, q)" by (cases x)
  have none: "n \<notin> fst ` set A \<Longrightarrow> filter (\<lambda>(k, q). k = n) A = []"
    by (force simp: filter_empty_conv)
  show ?case using Cons none by (auto simp: x split: if_splits dest: map_of_SomeD)
qed

text \<open>
  Claim C1 (amended). For every sequence of parameter sets passed to \<open>merge\<close> (each an
  \<open>lmfit.Parameters\<close>, holding every parameter under its own name) and every name
  \<open>n\<close>: when \<open>n\<close> occurs in no set the result has no entry for it; when at least one
  occurrence varies, the result keeps the first occurrence marked \<open>vary\<close>; when none
  varies, the result keeps the last occurrence (each later fixed occurrence replaces the
  fixed one stored before it). In particular, when \<open>n\<close> is fixed in one set and varying
  in the other, the varying parameter is kept whatever the order of the two sets.
\<close>

theorem C1_merge_policy:
  "(list_all Parameters_ok params_list \<longrightarrow>
      map_of (merge params_list) n =
        (let occs = map snd (filter (\<lambda>(k, p). k = n) (concat params_list))
         in if occs = [] then None
            else Some (case find Parameter_vary occs of Some p \<Rightarrow> p | None \<Rightarrow> last occs)))
 \<and> (Parameters_ok A \<and> Parameters_ok B \<and> distinct (map fst A) \<and> distinct (map fst B)
      \<and> map_of A n = Some f \<and> map_of B n = Some v
      \<and> \<not> Parameter_vary f \<and> Parameter_vary v \<longrightarrow>
      map_of (merge [A, B]) n = Some v \<and> map_of (merge [B, A]) n = Some v)"
proof (intro conjI impI)
  assume "list_all Parameters_ok params_list"
  then show "map_of (merge params_list) n =
        (let occs = map snd (filter (\<lambda>(k, p). k = n) (concat params_list))
         in if occs = [] then None
            else Some (case find Parameter_vary occs of Some p \<Rightarrow> p | None \<Rightarrow> last occs))"
    by (simp add: merge_eq merge_items_lookup Let_def split: option.splits)
next
  assume a: "Parameters_ok A \<and> Parameters_ok B \<and> distinct (map fst A) \<and> distinct (map fst B)
      \<and> map_of A n = Some f \<and> map_of B n = Some v
      \<and> \<not> Parameter_vary f \<and> Parameter_vary v"
  then have "map_of (merge [A, B]) n = Some v \<and> map_of (merge [B, A]) n = Some v"
    using single_occurrence [of A n f] single_occurrence [of B n v]
    by (simp add: merge_eq merge_items_lookup Let_def split: option.splits)
  then show "map_of (merge [A, B]) n = Some v" and "map_of (merge [B, A]) n = Some v"
    by simp_all
qed

theorem C1_merge_policy_witness:
  "map_of (merge [[(''kex_ab'', kex_fixed1)], [(''kex_ab'', kex_vary2)], [(''kex_ab'', kex_vary3)]])
     ''kex_ab'' = Some kex_vary2
 \<and> map_of (merge [[(''kex_ab'', kex_fixed1)], [(''kex_ab'', kex_vary2)]]) ''kex_ab'' = Some kex_vary2
 \<and> map_of (merge [[(''kex_ab'', kex_vary2)], [(''kex_ab'', kex_fixed1)]]) ''kex_ab'' = Some kex_vary2"
  using C1_merge_policy [where params_list =
            "[[(''kex_ab'', kex_fixed1)], [(''kex_ab'', kex_vary2)], [(''kex_ab'', kex_vary3)]]"
          and n = "''kex_ab''" and A = "[(''kex_ab'', kex_fixed1)]"
          and B = "[(''kex_ab'', kex_vary2)]" and f = kex_fixed1 and v = kex_vary2]
  by (simp add: Parameters_ok_def kex_fixed1_def kex_vary2_def kex_vary3_def)

text \<open>
  Counterexample to claim C1 as stated: the name \<open>kex_ab\<close> is fixed in both sets, with
  value 1 in the first and 5 in the second. The claim keeps the first occurrence; the
  code keeps the second.
\<close>

theorem C1_first_fixed_counterexample:
  "map_of (merge [[(''kex_ab'', kex_fixed1)], [(''kex_ab'', kex_fixed5)]]) ''kex_ab''
     = Some kex_fixed5
 \<and> map_of (merge [[(''kex_ab'', kex_fixed1)], [(''kex_ab'', kex_fixed5)]]) ''kex_ab''
     \<noteq> Some kex_fixed1"
  by (simp add: merge_def kex_fixed1_def kex_fixed5_def)

subsection \<open>CEST filter windows\<close>

lemma filter_loop_length:
  "length msk = length offs \<Longrightarrow>
   \<exists>m. filter_loop fl sw offs ws msk = Inr m \<and> length m = length offs
     \<and> (\<forall>i < length offs.
           m ! i = (msk ! i \<and> (\<forall>w \<in> set ws. \<not> mask_filter_at fl sw w (offs ! i))))"
proof (induction ws arbitrary: msk)
  case Nil
  then show ?case by simp
next
  case (Cons w ws)
  let ?m1 = "map2 (\<lambda>x b. if b then False else x) msk (map (mask_filter_at fl sw w) offs)"
  have l1: "length ?m1 = length offs" using Cons.prems by simp
  from Cons.IH [OF l1] obtain m where
    m: "filter_loop fl sw offs ws ?m1 = Inr m" "length m = length offs"
       "\<forall>i < length offs.
          m ! i = (?m1 ! i \<and> (\<forall>w \<in> set ws. \<not> mask_filter_at fl sw w (offs ! i)))"
    by blast
  have "filter_loop fl sw offs (w # ws) msk = Inr m"
    using Cons.prems m(1) by (simp add: np_bool_assign_def res_bind_def)
  moreover have "\<forall>i < length offs.
      m ! i = (msk ! i \<and> (\<forall>w' \<in> set (w # ws). \<not> mask_filter_at fl sw w' (offs ! i)))"
    using m(3) Cons.prems by auto
  ultimately show ?case using m(2) by blast
qed

lemma cest_data_eq:
  "cest_data = \<lparr>points = cest_points, refs = [True, False, False, False],
     mask = [True, True, True, True], filter_offsets = [(100, 100)]\<rparr>"
  by (simp add: cest_data_def CestData_from_points_def cest_points_def upt_rec Let_def)

lemma np_less_irrefl: "\<not> np_less a a"
  by (cases a) simp_all

lemma np_less_Finite_abs: "np_less (np_abs (Finite v)) (Finite hb) = (\<bar>v\<bar> < hb)"
  by simp

lemma CestData_filter_mask:
  assumes "length (mask d) = length (points d)"
  shows "\<exists>m. CestData_filter fl d cs_offset sw_dante = Inr (d\<lparr>mask := m\<rparr>)
     \<and> length m = length (points d)
     \<and> (\<forall>i < length (points d). m ! i = (mask d ! i \<and> (\<forall>w \<in> set (filter_offsets d).
              \<not> mask_filter_at fl sw_dante w
                  (fl_sub fl (Finite (offsets (points d ! i))) (Finite cs_offset)))))"
proof -
  let ?offs = "map (\<lambda>p. fl_sub fl (Finite (offsets p)) (Finite cs_offset)) (points d)"
  have len: "length (mask d) = length ?offs" using assms(1) by simp
  from filter_loop_length [OF len, of fl sw_dante "filter_offsets d"] obtain m where
    m: "filter_loop fl sw_dante ?offs (filter_offsets d) (mask d) = Inr m"
       "length m = length ?offs"
       "\<forall>j < length ?offs. m ! j = (mask d ! j \<and> (\<forall>w \<in> set (filter_offsets d).
            \<not> mask_filter_at fl sw_dante w (?offs ! j)))"
    by blast
  have res: "CestData_filter fl d cs_offset sw_dante = Inr (d\<lparr>mask := m\<rparr>)"
    by (simp add: CestData_filter_def m(1) res_bind_def)
  show ?thesis using res m(2) m(3) by auto
qed

text \<open>
  Claim C10. \<open>CestData.filter\<close> on data whose mask has one entry per point returns
  normally and leaves the points alone. For every point \<open>i\<close> and every configured window
  \<open>(filter_offset, bandwidth)\<close> let \<open>offsets_\<close> be the value the code computes for the
  point: \<open>offset - cs_offset - filter_offset\<close>, wrapped as
  \<open>(offsets_ + 0.5 * sw) % sw - 0.5 * sw\<close> when a DANTE sweep width \<open>sw\<close> is configured,
  and let \<open>half\<close> be the computed \<open>bandwidth * 0.5\<close>. The new mask of the point is its
  old mask and, for no window, \<open>abs(offsets_) < half\<close>. The test is strict: a point with
  \<open>abs(offsets_)\<close> exactly equal to \<open>half\<close> for the only window keeps its mask, and a
  point with \<open>abs(offsets_) < half\<close> for some window has its mask set to false; with a
  sweep width the same strict test is applied to the wrapped value. The statement holds
  for every rounding of the arithmetic: what is compared are the computed values.
\<close>

theorem C10_filter_strict:
  assumes "length (mask d) = length (points d)" and "i < length (points d)"
  shows "\<exists>d'. CestData_filter fl d cs_offset sw_dante = Inr d'
     \<and> points d' = points d \<and> length (mask d') = length (points d)
     \<and> (let x = fl_sub fl (Finite (offsets (points d ! i))) (Finite cs_offset);
             half = (\<lambda>bw. fl_mul fl (Finite bw) (Finite 0.5));
             shifted = (\<lambda>fo. fl_sub fl x (Finite fo));
             offsets_computed =
               (\<lambda>fo. case sw_dante of
                        None \<Rightarrow> shifted fo
                      | Some sw \<Rightarrow>
                          fl_sub fl
                            (fl_mod fl
                               (fl_add fl (shifted fo) (fl_mul fl (Finite 0.5) (Finite sw)))
                               (Finite sw))
                            (fl_mul fl (Finite 0.5) (Finite sw)))
         in mask d' ! i =
              (mask d ! i \<and> (\<forall>(fo, bw) \<in> set (filter_offsets d).
                 \<not> np_less (np_abs (offsets_computed fo)) (half bw)))
          \<and> (filter_offsets d = [(fo, bw)] \<and> np_abs (offsets_computed fo) = half bw \<longrightarrow>
                mask d' ! i = mask d ! i)
          \<and> ((fo, bw) \<in> set (filter_offsets d)
                \<and> np_less (np_abs (offsets_computed fo)) (half bw) \<longrightarrow>
                mask d' ! i = False)
          \<and> (filter_offsets d = [(fo, bw)] \<and> offsets_computed fo = Finite v
                \<and> half bw = Finite hb \<and> \<bar>v\<bar> = hb \<longrightarrow>
                mask d' ! i = mask d ! i)
          \<and> ((fo, bw) \<in> set (filter_offsets d) \<and> offsets_computed fo = Finite v
                \<and> half bw = Finite hb \<and> \<bar>v\<bar> < hb \<longrightarrow>
                mask d' ! i = False))"
proof -
  define x where "x = fl_sub fl (Finite (offsets (points d ! i))) (Finite cs_offset)"
  define half where "half = (\<lambda>bw. fl_mul fl (Finite bw) (Finite 0.5))"
  define oc where "oc = (\<lambda>fo. case sw_dante of
                        None \<Rightarrow> fl_sub fl x (Finite fo)
                      | Some sw \<Rightarrow>
                          fl_sub fl
                            (fl_mod fl
                               (fl_add fl (fl_sub fl x (Finite fo))
                                  (fl_mul fl (Finite 0.5) (Finite sw)))
                               (Finite sw))
                            (fl_mul fl (Finite 0.5) (Finite sw)))"
  have mfa: "mask_filter_at fl sw_dante (fo', bw') x = np_less (np_abs (oc fo')) (half bw')"
    for fo' bw'
    by (simp add: mask_filter_at_def oc_def half_def Let_def split: option.splits)
  from CestData_filter_mask [OF assms(1), of fl cs_offset sw_dante] obtain m where
    res: "CestData_filter fl d cs_offset sw_dante = Inr (d\<lparr>mask := m\<rparr>)"
    and lm: "length m = length (points d)"
    and mi0: "m ! i = (mask d ! i \<and> (\<forall>w \<in> set (filter_offsets d).
                 \<not> mask_filter_at fl sw_dante w x))"
    using assms(2) unfolding x_def by blast
  have mi: "m ! i = (mask d ! i \<and> (\<forall>(fo, bw) \<in> set (filter_offsets d).
                 \<not> np_less (np_abs (oc fo)) (half bw)))"
    unfolding mi0 using mfa by (auto split: prod.splits)
  have edge: "filter_offsets d = [(fo, bw)] \<and> np_abs (oc fo) = half bw \<Longrightarrow> m ! i = mask d ! i"
    unfolding mi by (auto simp: np_less_irrefl)
  have inside: "(fo, bw) \<in> set (filter_offsets d) \<and> np_less (np_abs (oc fo)) (half bw)
      \<Longrightarrow> m ! i = False"
    unfolding mi by auto
  have edge_fin: "filter_offsets d = [(fo, bw)] \<and> oc fo = Finite v \<and> half bw = Finite hb
      \<and> \<bar>v\<bar> = hb \<Longrightarrow> m ! i = mask d ! i"
    unfolding mi by auto
  have inside_fin: "(fo, bw) \<in> set (filter_offsets d) \<and> oc fo = Finite v \<and> half bw = Finite hb
      \<and> \<bar>v\<bar> < hb \<Longrightarrow> m ! i = False"
    unfolding mi by force
  have final: "CestData_filter fl d cs_offset sw_dante = Inr (d\<lparr>mask := m\<rparr>)
     \<and> points (d\<lparr>mask := m\<rparr>) = points d \<and> length (mask (d\<lparr>mask := m\<rparr>)) = length (points d)
     \<and> (mask (d\<lparr>mask := m\<rparr>) ! i =
              (mask d ! i \<and> (\<forall>(fo, bw) \<in> set (filter_offsets d).
                 \<not> np_less (np_abs (oc fo)) (half bw)))
          \<and> (filter_offsets d = [(fo, bw)] \<and> np_abs (oc fo) = half bw \<longrightarrow>
                mask (d\<lparr>mask := m\<rparr>) ! i = mask d ! i)
          \<and> ((fo, bw) \<in> set (filter_offsets d)
                \<and> np_less (np_abs (oc fo)) (half bw) \<longrightarrow>
                mask (d\<lparr>mask := m\<rparr>) ! i = False)
          \<and> (filter_offsets d = [(fo, bw)] \<and> oc fo = Finite v
                \<and> half bw = Finite hb \<and> \<bar>v\<bar> = hb \<longrightarrow>
                mask (d\<lparr>mask := m\<rparr>) ! i = mask d ! i)
          \<and> ((fo, bw) \<in> set (filter_offsets d) \<and> oc fo = Finite v
                \<and> half bw = Finite hb \<and> \<bar>v\<bar> < hb \<longrightarrow>
                mask (d\<lparr>mask := m\<rparr>) ! i = False))"
    using res lm mi edge inside edge_fin inside_fin by simp
  show ?thesis
    unfolding Let_def
    by (rule exI [of _ "d\<lparr>mask := m\<rparr>"]) (rule final [unfolded oc_def half_def x_def])
qed

lemma exact_ops_eval:
  "fl_sub exact_ops (Finite a) (Finite b) = Finite (a - b)"
  "fl_add exact_ops (Finite a) (Finite b) = Finite (a + b)"
  "fl_mul exact_ops (Finite a) (Finite b) = Finite (a * b)"
  "b \<noteq> 0 \<Longrightarrow> fl_mod exact_ops (Finite a) (Finite b) = Finite (a - b * of_int \<lfloor>a / b\<rfloor>)"
  by (simp_all add: exact_ops_def exact2_def exact_mod_def)

theorem C10_filter_strict_witness:
  "(\<exists>d'. CestData_filter exact_ops cest_data 0 None = Inr d' \<and> mask d' ! 2 = True)
 \<and> (\<exists>d'. CestData_filter exact_ops cest_data 0 None = Inr d' \<and> mask d' ! 1 = False)
 \<and> (\<exists>d'. CestData_filter exact_ops cest_data 0 (Some 1000) = Inr d' \<and> mask d' ! 3 = False)
 \<and> (\<exists>d'. CestData_filter exact_ops cest_data 0 (Some 1000) = Inr d' \<and> mask d' ! 2 = True)"
proof (intro conjI)
  show "\<exists>d'. CestData_filter exact_ops cest_data 0 None = Inr d' \<and> mask d' ! 2 = True"
    using C10_filter_strict [of cest_data 2 exact_ops 0 None 100 100 50 50]
    by (auto simp: cest_data_eq cest_points_def Let_def exact_ops_eval)
  show "\<exists>d'. CestData_filter exact_ops cest_data 0 None = Inr d' \<and> mask d' ! 1 = False"
    using C10_filter_strict [of cest_data 1 exact_ops 0 None 100 100 0 50]
    by (auto simp: cest_data_eq cest_points_def Let_def exact_ops_eval)
  show "\<exists>d'. CestData_filter exact_ops cest_data 0 (Some 1000) = Inr d' \<and> mask d' ! 3 = False"
    using C10_filter_strict [of cest_data 3 exact_ops 0 "Some 1000" 100 100 0 50]
    by (auto simp: cest_data_eq cest_points_def Let_def exact_ops_eval)
  show "\<exists>d'. CestData_filter exact_ops cest_data 0 (Some 1000) = Inr d' \<and> mask d' ! 2 = True"
    using C10_filter_strict [of cest_data 2 exact_ops 0 "Some 1000" 100 100 50 50]
    by (auto simp: cest_data_eq cest_points_def Let_def exact_ops_eval)
qed

text \<open>
  \<open>CestProfile.filter\<close> hands the data the first offset of the chemical shifts and the
  pulse sequence's sweep width.
\<close>

lemma CestProfile_filter_delegates:
  assumes "get_cs_values (profile_par_names self) cs_names params = Inr cs_values"
    and "pseq_ppms_to_offsets (profile_pulse_seq self) cs_values = cs_offset # rest"
    and "CestData_filter fl (profile_data self) cs_offset (pseq_sw_dante (profile_pulse_seq self))
           = Inr d"
  shows "CestProfile_filter fl self params = Inr (self\<lparr>profile_data := d\<rparr>)"
  using assms by (simp add: CestProfile_filter_def res_bind_def)

subsection \<open>Residuals of a CEST profile\<close>

lemma bool_index_nth:
  "length ms = length xs \<Longrightarrow>
   map fst (filter snd (zip xs ms)) = map (\<lambda>i. xs ! i) (filter (\<lambda>i. ms ! i) [0..<length xs])"
proof (induction xs ms rule: list_induct2')
  case (4 x xs m ms)
  then have IH: "map fst (filter snd (zip xs ms)) = map ((!) xs) (filter ((!) ms) [0..<length xs])"
    by simp
  have "[0..<length (x # xs)] = 0 # map Suc [0..<length xs]"
    by (simp add: upt_conv_Cons map_Suc_upt del: upt_Suc)
  then show ?case
    by (simp add: IH filter_map comp_def del: upt_Suc)
qed simp_all

lemma bool_index_length:
  "length ms = length xs \<Longrightarrow> length (filter snd (zip xs ms)) = length (filter (\<lambda>b. b) ms)"
  by (induction xs ms rule: list_induct2') simp_all

lemma cest_data_masked_eq:
  "cest_data_masked = \<lparr>points = cest_points, refs = [True, False, False, False],
     mask = [True, False, True, True], filter_offsets = [(100, 100)]\<rparr>"
  by (simp add: cest_data_masked_def CestData_from_points_def cest_points_def upt_rec Let_def)

text \<open>
  Claim C7. For a profile whose mask has one entry per point, a pulse sequence that
  returns one value per offset and a parameter vector that holds every parameter the
  profile names: \<open>calculate(params)\<close> and \<open>residuals(params)\<close> return normally; the
  residual vector has one entry per unmasked point; \<open>calculate\<close> is the pulse sequence's
  curve at the unmasked offsets times the scale factor that \<open>get_scale\<close> computes from the
  intensities, errors and curve of the unmasked points only; entry \<open>k\<close> of the residuals
  is (calculated - measured) / uncertainty at the \<open>k\<close>-th unmasked point; and any other
  data set with the same unmasked points (whatever its masked points are) gives the same
  calculated curve and the same residuals. \<open>get_scale\<close> is arbitrary. Numbers are real.
\<close>

theorem C7_residuals_unmasked:
  fixes self :: CestProfile
  defines "d \<equiv> profile_data self"
  defines "ps \<equiv> profile_pulse_seq self"
  defines "sel \<equiv> map (\<lambda>i. points d ! i) (filter (\<lambda>i. mask d ! i) [0..<length (points d)])"
  assumes ok: "length (mask d) = length (points d)"
    and calc_len: "\<forall>offs par_values. length (pseq_calculate ps offs par_values) = length offs"
    and pv: "get_parvals (profile_par_names self) params = Inr par_values"
  shows "\<exists>calculated rs.
       CestProfile_calculate get_scale self params None = Inr calculated
     \<and> CestProfile_residuals get_scale self params = Inr rs
     \<and> length rs = length (filter (\<lambda>b. b) (mask d))
     \<and> length rs = length sel
     \<and> calculated =
         map (\<lambda>c. get_scale (map intensities sel) (map errors sel)
                     (pseq_calculate ps (map offsets sel) par_values) * c)
           (pseq_calculate ps (map offsets sel) par_values)
     \<and> (\<forall>k < length sel. rs ! k = (calculated ! k - intensities (sel ! k)) / errors (sel ! k))
     \<and> (\<forall>d'. length (mask d') = length (points d')
            \<and> map (\<lambda>i. points d' ! i) (filter (\<lambda>i. mask d' ! i) [0..<length (points d')]) = sel
          \<longrightarrow> CestProfile_calculate get_scale (self\<lparr>profile_data := d'\<rparr>) params None = Inr calculated
            \<and> CestProfile_residuals get_scale (self\<lparr>profile_data := d'\<rparr>) params = Inr rs)"
proof -
  define calc0 where "calc0 = pseq_calculate ps (map offsets sel) par_values"
  define calculated where
    "calculated = map (\<lambda>c. get_scale (map intensities sel) (map errors sel) calc0 * c) calc0"
  define rs where "rs = map2 (/) (map2 (-) calculated (map intensities sel)) (map errors sel)"
  have lc: "length calculated = length sel"
    using calc_len by (simp add: calculated_def calc0_def)
  have gen: "CestProfile_calculate get_scale (self\<lparr>profile_data := d'\<rparr>) params None = Inr calculated
           \<and> CestProfile_residuals get_scale (self\<lparr>profile_data := d'\<rparr>) params = Inr rs"
    if d': "length (mask d') = length (points d')"
      "map (\<lambda>i. points d' ! i) (filter (\<lambda>i. mask d' ! i) [0..<length (points d')]) = sel"
    for d'
  proof -
    have idx: "np_bool_index (points d') (mask d') = Inr sel"
      using d' bool_index_nth [of "mask d'" "points d'"] by (simp add: np_bool_index_def)
    have c: "CestProfile_calculate get_scale (self\<lparr>profile_data := d'\<rparr>) params None = Inr calculated"
      using pv by (simp add: CestProfile_calculate_def idx res_bind_def Let_def
          calculated_def calc0_def ps_def)
    have r: "CestProfile_residuals get_scale (self\<lparr>profile_data := d'\<rparr>) params = Inr rs"
      using lc by (simp add: CestProfile_residuals_def idx c res_bind_def np_broadcast2_def rs_def)
    show ?thesis using c r by simp
  qed
  have self_eq: "self\<lparr>profile_data := d\<rparr> = self" by (simp add: d_def)
  have here: "CestProfile_calculate get_scale self params None = Inr calculated
           \<and> CestProfile_residuals get_scale self params = Inr rs"
    using gen [of d] ok by (simp add: self_eq sel_def)
  have lr: "length rs = length sel" using lc by (simp add: rs_def)
  have lm: "length sel = length (filter (\<lambda>b. b) (mask d))"
    using bool_index_length [OF ok] bool_index_nth [OF ok]
    by (metis length_map sel_def)
  have ent: "\<forall>k < length sel. rs ! k = (calculated ! k - intensities (sel ! k)) / errors (sel ! k)"
    using lc by (simp add: rs_def)
  show ?thesis
    apply (rule exI [of _ calculated])
    apply (rule exI [of _ rs])
    using here lr lm ent gen by (simp add: calculated_def calc0_def)
qed

theorem C7_residuals_unmasked_witness:
  "\<exists>rs. CestProfile_residuals get_scale_lsq example_profile example_params = Inr rs
      \<and> length rs = 3 \<and> length (points (profile_data example_profile)) = 4"
proof -
  have ok: "length (mask (profile_data example_profile)) = length (points (profile_data example_profile))"
    by (simp add: example_profile_def cest_data_masked_eq cest_points_def)
  have cl: "\<forall>offs par_values.
      length (pseq_calculate (profile_pulse_seq example_profile) offs par_values) = length offs"
    by (simp add: example_profile_def example_pulse_seq_def)
  have pv: "get_parvals (profile_par_names example_profile) example_params = Inr [(''cs_i_a'', 2)]"
    by (simp add: example_profile_def example_params_def res_bind_def)
  from C7_residuals_unmasked [OF ok cl pv, of get_scale_lsq] obtain rs where
    "CestProfile_residuals get_scale_lsq example_profile example_params = Inr rs"
    "length rs = length (filter (\<lambda>b. b) (mask (profile_data example_profile)))"
    by blast
  then show ?thesis
    by (simp add: example_profile_def cest_data_masked_eq cest_points_def)
qed

subsection \<open>Bootstrap resampling\<close>

lemma bool_index_upt:
  assumes "length ms = n"
  shows "np_bool_index [0..<n] ms = Inr (filter (\<lambda>i. ms ! i) [0..<n])"
proof -
  have "map (\<lambda>i. [0..<n] ! i) (filter (\<lambda>i. ms ! i) [0..<n]) = map (\<lambda>i. i) (filter (\<lambda>i. ms ! i) [0..<n])"
    by (rule map_cong) auto
  then show ?thesis
    using assms bool_index_nth [of ms "[0..<n]"] by (simp add: np_bool_index_def)
qed

lemma pool_and:
  assumes "length rs = n" and "length ms = n"
  shows "res_bind (np_broadcast2 (\<and>) rs ms) (np_bool_index [0..<n])
           = Inr (filter (\<lambda>i. rs ! i \<and> ms ! i) [0..<n])"
proof -
  have "filter (\<lambda>i. map2 (\<and>) rs ms ! i) [0..<n] = filter (\<lambda>i. rs ! i \<and> ms ! i) [0..<n]"
    by (rule filter_cong) (use assms in auto)
  then show ?thesis
    using assms bool_index_upt [of "map2 (\<and>) rs ms" n]
    by (simp add: np_broadcast2_def res_bind_def)
qed

lemma choice_ok:
  "np_random_choice pool (length pool) draw
     = Inr (map (\<lambda>k. pool ! (draw k mod length pool)) [0..<length pool])"
  by (simp add: np_random_choice_def)

lemma choice_in_pool:
  "set (map (\<lambda>k. pool ! (draw k mod length pool)) [0..<length pool]) \<subseteq> set pool"
  by (cases "pool = []") auto

lemma bootstrap_indexes_eq:
  assumes "CestData_ok d"
  shows "bootstrap_indexes d draw =
     (let pool1 = filter (\<lambda>i. refs d ! i \<and> mask d ! i) [0..<length (points d)];
          pool2 = filter (\<lambda>i. \<not> refs d ! i \<and> mask d ! i) [0..<length (points d)]
      in Inr (sort (map (\<lambda>k. pool1 ! (draw k mod length pool1)) [0..<length pool1]
                  @ map (\<lambda>k. pool2 ! (draw (k + length pool1) mod length pool2)) [0..<length pool2])))"
proof -
  let ?n = "length (points d)"
  have l: "length (refs d) = ?n" "length (mask d) = ?n" "length (map Not (refs d)) = ?n"
    using assms by (simp_all add: CestData_ok_def)
  have p1: "res_bind (np_broadcast2 (\<and>) (refs d) (mask d)) (np_bool_index [0..<?n])
      = Inr (filter (\<lambda>i. refs d ! i \<and> mask d ! i) [0..<?n])"
    by (rule pool_and [OF l(1) l(2)])
  have "filter (\<lambda>i. map Not (refs d) ! i \<and> mask d ! i) [0..<?n]
      = filter (\<lambda>i. \<not> refs d ! i \<and> mask d ! i) [0..<?n]"
    by (rule filter_cong) (use l in auto)
  then have p2: "res_bind (np_broadcast2 (\<and>) (map Not (refs d)) (mask d)) (np_bool_index [0..<?n])
      = Inr (filter (\<lambda>i. \<not> refs d ! i \<and> mask d ! i) [0..<?n])"
    using pool_and [OF l(3) l(2)] by simp
  have b1: "np_broadcast2 (\<and>) (refs d) (mask d) = Inr (map2 (\<and>) (refs d) (mask d))"
    and b2: "np_broadcast2 (\<and>) (map Not (refs d)) (mask d) = Inr (map2 (\<and>) (map Not (refs d)) (mask d))"
    using l by (simp_all add: np_broadcast2_def)
  have q1: "np_bool_index [0..<?n] (map2 (\<and>) (refs d) (mask d))
      = Inr (filter (\<lambda>i. refs d ! i \<and> mask d ! i) [0..<?n])"
    using p1 by (simp add: b1 res_bind_def)
  have q2: "np_bool_index [0..<?n] (map2 (\<and>) (map Not (refs d)) (mask d))
      = Inr (filter (\<lambda>i. \<not> refs d ! i \<and> mask d ! i) [0..<?n])"
    using p2 by (simp add: b2 res_bind_def)
  show ?thesis
    by (simp add: bootstrap_indexes_def Let_def res_bind_def b1 b2 q1 q2 choice_ok)
qed

text \<open>
  Claim C2 (amended). \<open>bootstrap\<close> resamples the unmasked points only. For every CEST
  profile whose three arrays have one length, with \<open>M\<close> unmasked reference points
  (\<open>pool1\<close>) and \<open>N\<close> unmasked non-reference points (\<open>pool2\<close>), bootstrap resampling
  returns a profile with exactly \<open>N + M\<close> points, of which exactly \<open>M\<close> are copies of
  reference points and \<open>N\<close> copies of non-reference points, so at least one reference
  point when \<open>M > 0\<close>. The resampled indices are drawn with replacement, \<open>M\<close> of them
  from the reference pool and then \<open>N\<close> from the non-reference pool, and sorted into
  the original order; masked points are never drawn. \<open>refs\<close> and \<open>mask\<close> are returned
  as they were.
\<close>

theorem C2_bootstrap_unmasked:
  fixes self :: CestProfile
  defines "d \<equiv> profile_data self"
  defines "pool1 \<equiv> filter (\<lambda>i. refs d ! i \<and> mask d ! i) [0..<length (points d)]"
  defines "pool2 \<equiv> filter (\<lambda>i. \<not> refs d ! i \<and> mask d ! i) [0..<length (points d)]"
  assumes ok: "CestData_ok d"
  shows "\<exists>bs d'.
       bootstrap_indexes d draw = Inr bs
     \<and> CestData_bootstrap d draw = Inr d'
     \<and> CestProfile_bootstrap self draw = Inr (self\<lparr>profile_data := d'\<rparr>)
     \<and> points d' = map (\<lambda>i. points d ! i) bs \<and> refs d' = refs d \<and> mask d' = mask d
     \<and> bs = sort (map (\<lambda>k. pool1 ! (draw k mod length pool1)) [0..<length pool1]
                    @ map (\<lambda>k. pool2 ! (draw (k + length pool1) mod length pool2)) [0..<length pool2])
     \<and> sorted bs
     \<and> (\<forall>i \<in> set bs. i < length (points d) \<and> mask d ! i)
     \<and> length (points d') = length pool2 + length pool1
     \<and> length (filter (\<lambda>i. refs d ! i) bs) = length pool1
     \<and> length (filter (\<lambda>i. \<not> refs d ! i) bs) = length pool2
     \<and> (0 < length pool1 \<longrightarrow> (\<exists>i \<in> set bs. refs d ! i))"
proof -
  define bs1 where "bs1 = map (\<lambda>k. pool1 ! (draw k mod length pool1)) [0..<length pool1]"
  define bs2 where "bs2 = map (\<lambda>k. pool2 ! (draw (k + length pool1) mod length pool2)) [0..<length pool2]"
  define bs where "bs = sort (bs1 @ bs2)"
  have idx: "bootstrap_indexes d draw = Inr bs"
    using bootstrap_indexes_eq [OF ok, of draw]
    by (simp add: Let_def bs_def bs1_def bs2_def pool1_def pool2_def)
  have s1: "set bs1 \<subseteq> set pool1"
    unfolding bs1_def by (rule choice_in_pool)
  have s2: "set bs2 \<subseteq> set pool2"
    unfolding bs2_def using choice_in_pool [of pool2 "\<lambda>k. draw (k + length pool1)"] by simp
  have r1: "\<forall>i \<in> set bs1. refs d ! i \<and> mask d ! i \<and> i < length (points d)"
    using s1 by (auto simp: pool1_def)
  have r2: "\<forall>i \<in> set bs2. \<not> refs d ! i \<and> mask d ! i \<and> i < length (points d)"
    using s2 by (auto simp: pool2_def)
  have f1: "filter (\<lambda>i. refs d ! i) bs1 = bs1" "filter (\<lambda>i. \<not> refs d ! i) bs1 = []"
    using r1 by (simp_all add: filter_id_conv filter_empty_conv)
  have f2: "filter (\<lambda>i. refs d ! i) bs2 = []" "filter (\<lambda>i. \<not> refs d ! i) bs2 = bs2"
    using r2 by (simp_all add: filter_id_conv filter_empty_conv)
  have l1: "length bs1 = length pool1" and l2: "length bs2 = length pool2"
    by (simp_all add: bs1_def bs2_def)
  have c1: "length (filter (\<lambda>i. refs d ! i) bs) = length pool1"
    by (simp add: bs_def filter_sort f1 f2 l1)
  have c2: "length (filter (\<lambda>i. \<not> refs d ! i) bs) = length pool2"
    by (simp add: bs_def filter_sort f1 f2 l2)
  have ex: "0 < length pool1 \<longrightarrow> (\<exists>i \<in> set bs. refs d ! i)"
  proof
    assume "0 < length pool1"
    then have "filter (\<lambda>i. refs d ! i) bs \<noteq> []" using c1 by auto
    then show "\<exists>i \<in> set bs. refs d ! i" by (auto simp: filter_empty_conv)
  qed
  have all: "\<forall>i \<in> set bs. i < length (points d) \<and> mask d ! i"
    using r1 r2 by (auto simp: bs_def)
  have dat: "CestData_bootstrap d draw = Inr (d\<lparr>points := map (\<lambda>i. points d ! i) bs\<rparr>)"
    by (simp add: CestData_bootstrap_def idx res_bind_def)
  have prof: "CestProfile_bootstrap self draw
      = Inr (self\<lparr>profile_data := d\<lparr>points := map (\<lambda>i. points d ! i) bs\<rparr>\<rparr>)"
    using dat by (simp add: CestProfile_bootstrap_def d_def res_bind_def)
  show ?thesis
    apply (rule exI [of _ bs])
    apply (rule exI [of _ "d\<lparr>points := map (\<lambda>i. points d ! i) bs\<rparr>"])
    using idx dat prof all c1 c2 ex l1 l2
    by (simp add: bs_def bs1_def bs2_def)
qed

lemma cest_data_noref_eq:
  "cest_data_noref = \<lparr>points = cest_points, refs = [True, False, False, False],
     mask = [False, True, True, True], filter_offsets = [(100, 100)]\<rparr>"
  by (simp add: cest_data_noref_def CestData_from_points_def cest_points_def upt_rec Let_def)

theorem C2_bootstrap_unmasked_witness:
  "\<exists>d'. CestProfile_bootstrap example_profile draw_example
           = Inr (example_profile\<lparr>profile_data := d'\<rparr>)
      \<and> length (points d') = 3
      \<and> length (filter (\<lambda>p. \<bar>offsets p\<bar> \<ge> 10000) (points d')) = 1"
proof -
  have ok: "CestData_ok (profile_data example_profile)"
    by (simp add: CestData_ok_def example_profile_def cest_data_masked_eq cest_points_def)
  have p1: "filter (\<lambda>i. refs cest_data_masked ! i \<and> mask cest_data_masked ! i)
              [0..<length (points cest_data_masked)] = [0]"
    by (simp add: cest_data_masked_eq cest_points_def upt_rec)
  have p2: "filter (\<lambda>i. \<not> refs cest_data_masked ! i \<and> mask cest_data_masked ! i)
              [0..<length (points cest_data_masked)] = [2, 3]"
    by (simp add: cest_data_masked_eq cest_points_def upt_rec)
  from C2_bootstrap_unmasked [OF ok, of draw_example] obtain bs d' where
    r: "CestProfile_bootstrap example_profile draw_example = Inr (example_profile\<lparr>profile_data := d'\<rparr>)"
    and pts: "points d' = map (\<lambda>i. points cest_data_masked ! i) bs"
    and bs: "bs = sort (map (\<lambda>k. [0] ! (draw_example k mod length [0::nat])) [0..<length [0::nat]]
                    @ map (\<lambda>k. [2, 3] ! (draw_example (k + length [0::nat]) mod length [2::nat, 3])) [0..<length [2::nat, 3]])"
    unfolding p1 p2 example_profile_def by (auto simp: p1 p2)
  have "bs = [0, 2, 3]"
    unfolding bs by code_simp
  then have "points d' = [cest_points ! 0, cest_points ! 2, cest_points ! 3]"
    using pts by (simp add: cest_data_masked_eq)
  then show ?thesis using r by (auto simp: cest_points_def)
qed

lemma bootstrap_indexes_noref: "bootstrap_indexes cest_data_noref draw_example = Inr [1, 2, 3]"
proof -
  have ok: "CestData_ok cest_data_noref"
    by (simp add: CestData_ok_def cest_data_noref_eq cest_points_def)
  have p1: "filter (\<lambda>i. refs cest_data_noref ! i \<and> mask cest_data_noref ! i)
              [0..<length (points cest_data_noref)] = []"
    by (simp add: cest_data_noref_eq cest_points_def upt_rec)
  have p2: "filter (\<lambda>i. \<not> refs cest_data_noref ! i \<and> mask cest_data_noref ! i)
              [0..<length (points cest_data_noref)] = [1, 2, 3]"
    by (simp add: cest_data_noref_eq cest_points_def upt_rec)
  have "sort (map (\<lambda>k. [1, 2, 3] ! (draw_example k mod length [1::nat, 2, 3]))
                [0..<length [1::nat, 2, 3]]) = [1::nat, 2, 3]"
    by code_simp
  then show ?thesis
    using bootstrap_indexes_eq [OF ok, of draw_example] by (simp add: p1 p2 Let_def)
qed

text \<open>
  Counterexample to claim C2 as stated: a profile with \<open>M = 1\<close> reference point and
  \<open>N = 3\<close> other points, read with \<open>filter_ref_planes = True\<close> so that the reference
  point is masked. The claim promises four points, one of them a reference point; the
  bootstrap replicate has three points and no reference point.
\<close>

theorem C2_masked_reference_counterexample:
  "refs cest_data_noref = [True, False, False, False]
 \<and> length (points cest_data_noref) = 4
 \<and> CestData_bootstrap cest_data_noref draw_example
      = Inr (cest_data_noref\<lparr>points := [cest_points ! 1, cest_points ! 2, cest_points ! 3]\<rparr>)
 \<and> filter (\<lambda>p. \<bar>offsets p\<bar> \<ge> 10000) [cest_points ! 1, cest_points ! 2, cest_points ! 3] = []"
  by (simp add: CestData_bootstrap_def bootstrap_indexes_noref res_bind_def)
     (simp add: cest_data_noref_eq cest_points_def)

subsection \<open>Monte Carlo resampling\<close>

lemma filter_all_true:
  "length ms = length xs \<Longrightarrow> list_all (\<lambda>b. b) ms \<Longrightarrow> map fst (filter snd (zip xs ms)) = xs"
  by (induction xs ms rule: list_induct2') simp_all

text \<open>
  On a profile without masked points \<open>monte_carlo\<close> returns a profile with the original
  offsets and uncertainties whose intensities are the calculated reference intensities
  plus noise scaled by each point's error (the noise is whatever \<open>randn\<close> delivers; that
  it is Gaussian is not expressed):
\<close>

lemma monte_carlo_unmasked:
  fixes self :: CestProfile
  defines "d \<equiv> profile_data self"
  assumes ok: "length (mask d) = length (points d)"
    and unmasked: "list_all (\<lambda>b. b) (mask d)"
    and calc_len: "\<forall>offs par_values.
        length (pseq_calculate (profile_pulse_seq self) offs par_values) = length offs"
    and pv: "get_parvals (profile_par_names self) params = Inr par_values"
  shows "\<exists>intensities_ref d'.
       CestProfile_calculate get_scale self params None = Inr intensities_ref
     \<and> CestProfile_monte_carlo get_scale self params randn = Inr (self\<lparr>profile_data := d'\<rparr>)
     \<and> length (points d') = length (points d) \<and> refs d' = refs d \<and> mask d' = mask d
     \<and> map errors (points d') = map errors (points d)
     \<and> map offsets (points d') = map offsets (points d)
     \<and> (\<forall>k < length (points d).
           intensities (points d' ! k) = intensities_ref ! k + randn k * errors (points d ! k))"
proof -
  let ?n = "length (points d)"
  define calc0 where
    "calc0 = pseq_calculate (profile_pulse_seq self) (map offsets (points d)) par_values"
  define ref where
    "ref = map (\<lambda>c. get_scale (map intensities (points d)) (map errors (points d)) calc0 * c) calc0"
  define noise where "noise = map2 (*) (map randn [0..<?n]) (map errors (points d))"
  define new where "new = map2 (+) ref noise"
  define d' where "d' = d\<lparr>points := map2 (\<lambda>p v. p\<lparr>intensities := v\<rparr>) (points d) new\<rparr>"
  have idx: "np_bool_index (points d) (mask d) = Inr (points d)"
    using ok unmasked by (simp add: np_bool_index_def filter_all_true)
  have lref: "length ref = ?n" using calc_len by (simp add: ref_def calc0_def)
  have lnew: "length new = ?n" using lref by (simp add: new_def noise_def)
  have calc: "CestProfile_calculate get_scale self params None = Inr ref"
    using pv by (simp add: CestProfile_calculate_def d_def [symmetric] idx res_bind_def Let_def
        ref_def calc0_def)
  have n1: "np_broadcast2 (*) (map randn [0..<?n]) (map errors (points d)) = Inr noise"
    by (simp add: np_broadcast2_def noise_def)
  have lnoise: "length noise = ?n" by (simp add: noise_def)
  have n2: "np_broadcast2 (+) ref noise = Inr new"
    using lref lnoise by (simp add: np_broadcast2_def new_def)
  have n3: "np_assign ?n new = Inr new"
    using lnew by (simp add: np_assign_def)
  have mc: "CestData_monte_carlo d ref randn = Inr d'"
    by (simp add: CestData_monte_carlo_def n1 n2 n3 res_bind_def d'_def)
  have prof: "CestProfile_monte_carlo get_scale self params randn = Inr (self\<lparr>profile_data := d'\<rparr>)"
    by (simp add: CestProfile_monte_carlo_def calc res_bind_def d_def [symmetric] mc)
  have e: "map errors (points d') = map errors (points d)"
    and o: "map offsets (points d') = map offsets (points d)"
    using lnew by (auto simp: d'_def intro!: nth_equalityI)
  have i: "\<forall>k < ?n. intensities (points d' ! k) = ref ! k + randn k * errors (points d ! k)"
    using lnew lref by (simp add: d'_def new_def noise_def)
  show ?thesis
    apply (rule exI [of _ ref])
    apply (rule exI [of _ d'])
    using calc prof e o i lnew by (simp add: d'_def)
qed

text \<open>
  Claim C6 says that Monte Carlo resampling returns, for every CEST profile and
  parameter vector, a profile with the original uncertainties and with intensities equal
  to the calculated reference intensities plus noise scaled by each point's error. On a
  profile with a masked point the code returns nothing: \<open>calculate(params)\<close> gives one
  value per unmasked point while the noise has one value per point, and adding arrays of
  lengths 3 and 4 raises \<open>ValueError\<close>. The other operations on the data
  (\<open>residuals\<close>, \<open>calculate\<close>, \<open>bootstrap\<close>) all go through the mask. The input is the
  example profile, whose plane 1 is masked, with any scale function and any noise.
\<close>

theorem C6_monte_carlo_masked_raises:
  "CestProfile_monte_carlo get_scale example_profile example_params randn = Inl ValueError"
proof -
  have idx: "np_bool_index (points cest_data_masked) (mask cest_data_masked)
      = Inr [cest_points ! 0, cest_points ! 2, cest_points ! 3]"
    by (simp add: np_bool_index_def cest_data_masked_eq cest_points_def)
  have "\<exists>c. CestProfile_calculate get_scale example_profile example_params None = Inr c
      \<and> length c = 3"
    by (simp add: CestProfile_calculate_def example_profile_def idx res_bind_def Let_def
        example_pulse_seq_def example_params_def)
  then obtain c where calc: "CestProfile_calculate get_scale example_profile example_params None = Inr c"
    and lc: "length c = 3"
    by blast
  have mc: "CestData_monte_carlo cest_data_masked c randn = Inl ValueError"
    using lc
    by (simp add: CestData_monte_carlo_def cest_data_masked_eq cest_points_def
        np_broadcast2_def res_bind_def)
  have pd: "profile_data example_profile = cest_data_masked"
    by (simp add: example_profile_def)
  show ?thesis
    by (simp add: CestProfile_monte_carlo_def calc res_bind_def pd mc)
qed

subsection \<open>Completing a spin system from a basis\<close>

lemma complete_loop_frame:
  assumes "\<forall>(letter, atom) \<in> set items. \<exists>r. map_of sp letter = Some r \<and> r < length h"
    and "distinct (map (\<lambda>(letter, atom). the (map_of sp letter)) items)"
  shows "\<exists>h'. complete_loop sp items last_spin acc h
            = (h', acc @ map (\<lambda>(letter, atom). the (map_of sp letter)) items)
     \<and> length h' = length h
     \<and> (\<forall>r < length h. r \<notin> set (map (\<lambda>(letter, atom). the (map_of sp letter)) items)
           \<longrightarrow> h' ! r = h ! r)
     \<and> (\<forall>(letter, atom) \<in> set items.
           h' ! the (map_of sp letter) =
             (h ! the (map_of sp letter))
               \<lparr>Spin_atom := complete_atom atom (Spin_atom (h ! the (map_of sp letter)))\<rparr>)"
  using assms
proof (induction items arbitrary: last_spin acc h)
  case Nil
  then show ?case by simp
next
  case (Cons it items)
  obtain letter atom where it: "it = (letter, atom)" by (cases it)
  from Cons.prems(1) obtain r where r: "map_of sp letter = Some r" "r < length h"
    by (auto simp: it)
  let ?h1 = "h[r := (h ! r)\<lparr>Spin_atom := complete_atom atom (Spin_atom (h ! r))\<rparr>]"
  have p1: "\<forall>(letter, atom) \<in> set items. \<exists>r. map_of sp letter = Some r \<and> r < length ?h1"
    using Cons.prems(1) by (auto simp: it)
  have p2: "distinct (map (\<lambda>(letter, atom). the (map_of sp letter)) items)"
    using Cons.prems(2) by simp
  have rnot: "r \<notin> set (map (\<lambda>(letter, atom). the (map_of sp letter)) items)"
    using Cons.prems(2) r(1) by (simp add: it)
  from Cons.IH [OF p1 p2, of r "acc @ [r]"] obtain h' where
    h': "complete_loop sp items r (acc @ [r]) ?h1
           = (h', (acc @ [r]) @ map (\<lambda>(letter, atom). the (map_of sp letter)) items)"
      "length h' = length ?h1"
      "\<forall>q < length ?h1. q \<notin> set (map (\<lambda>(letter, atom). the (map_of sp letter)) items)
           \<longrightarrow> h' ! q = ?h1 ! q"
      "\<forall>(letter, atom) \<in> set items.
           h' ! the (map_of sp letter) =
             (?h1 ! the (map_of sp letter))
               \<lparr>Spin_atom := complete_atom atom (Spin_atom (?h1 ! the (map_of sp letter)))\<rparr>"
    by blast
  have step: "complete_loop sp (it # items) last_spin acc h
      = (h', acc @ map (\<lambda>(letter, atom). the (map_of sp letter)) (it # items))"
    using h'(1) r(1) by (simp add: it dict_get_def Let_def)
  have len: "length h' = length h" using h'(2) by simp
  have frame: "\<forall>q < length h. q \<notin> set (map (\<lambda>(letter, atom). the (map_of sp letter)) (it # items))
           \<longrightarrow> h' ! q = h ! q"
    using h'(3) r(1) by (auto simp: it)
  have hr: "h' ! r = (h ! r)\<lparr>Spin_atom := complete_atom atom (Spin_atom (h ! r))\<rparr>"
    using h'(3) r(2) rnot by simp
  have others: "\<forall>(l, a) \<in> set items.
           h' ! the (map_of sp l) =
             (h ! the (map_of sp l))\<lparr>Spin_atom := complete_atom a (Spin_atom (h ! the (map_of sp l)))\<rparr>"
  proof (clarify)
    fix l a assume la: "(l, a) \<in> set items"
    then have "the (map_of sp l) \<in> set (map (\<lambda>(letter, atom). the (map_of sp letter)) items)"
      by force
    then have ne: "the (map_of sp l) \<noteq> r" using rnot by auto
    from h'(4) la have "h' ! the (map_of sp l) =
             (?h1 ! the (map_of sp l))
               \<lparr>Spin_atom := complete_atom a (Spin_atom (?h1 ! the (map_of sp l)))\<rparr>"
      by auto
    then show "h' ! the (map_of sp l) =
             (h ! the (map_of sp l))\<lparr>Spin_atom := complete_atom a (Spin_atom (h ! the (map_of sp l)))\<rparr>"
      using ne by simp
  qed
  show ?case
    apply (rule exI [of _ h'])
    using step len frame hr others r(1) by (simp add: it)
qed


lemma basis_refs_distinct:
  assumes "\<forall>(letter, atom) \<in> set items. \<exists>r. map_of sp letter = Some r \<and> r < n"
    and "distinct (map fst items)" and "distinct (map snd sp)"
  shows "distinct (map (\<lambda>(letter, atom). the (map_of sp letter)) items)"
proof -
  have inj: "inj_on (\<lambda>l. the (map_of sp l)) (fst ` set items)"
  proof (rule inj_onI)
    fix l1 l2 assume a: "l1 \<in> fst ` set items" "l2 \<in> fst ` set items"
      and e: "the (map_of sp l1) = the (map_of sp l2)"
    from a assms(1) obtain r1 r2 where r: "map_of sp l1 = Some r1" "map_of sp l2 = Some r2"
      by fastforce
    with e have "r1 = r2" by simp
    moreover have "(l1, r1) \<in> set sp" "(l2, r2) \<in> set sp"
      using r by (auto dest: map_of_SomeD)
    ultimately show "l1 = l2"
      using assms(3) by (metis distinct_map inj_onD snd_conv fst_conv)
  qed
  have e: "map (\<lambda>(letter, atom). the (map_of sp letter)) items
      = map (\<lambda>l. the (map_of sp l)) (map fst items)"
    by (simp add: case_prod_beta comp_def)
  have "distinct (map (\<lambda>l. the (map_of sp l)) (map fst items))"
    by (rule iffD2 [OF distinct_map]) (use assms(2) inj in simp)
  then show ?thesis
    unfolding e .
qed

text \<open>
  What the loop of \<open>complete\<close> does to the objects it visits, for a receiver that defines
  every alias of the basis (its spins being distinct objects): the atom of the receiver's
  spin is kept when its name starts with the basis's nucleus letter in upper case, and is
  otherwise assigned \<open>Atom(letter + name[1:])\<close>. The assignment is made to the
  receiver's own object; neither its \<open>name\<close> nor its group is touched.
\<close>

lemma complete_loop_rewrites_atoms:
  assumes present: "\<forall>(letter, atom) \<in> set basis_atoms.
            \<exists>r. map_of (SpinSystem_spins self) letter = Some r \<and> r < length h"
    and keys: "distinct (map fst basis_atoms)"
    and objs: "distinct (map snd (SpinSystem_spins self))"
  shows "\<exists>h1 spins.
       complete_loop (SpinSystem_spins self) basis_atoms (length h) [] (h @ [Spin_init [] None])
         = (h1, spins)
     \<and> spins = map (\<lambda>(letter, atom). the (map_of (SpinSystem_spins self) letter)) basis_atoms
     \<and> complete self basis_atoms h = SpinSystem_init (Str (spins2name h1 spins)) h1
     \<and> (\<forall>(letter, atom) \<in> set basis_atoms.
           let r = the (map_of (SpinSystem_spins self) letter); a = Spin_atom (h ! r) in
             Spin_group (h1 ! r) = Spin_group (h ! r)
           \<and> (startswith (Atom_name a) (upper atom) \<longrightarrow> Spin_atom (h1 ! r) = a)
           \<and> (\<not> startswith (Atom_name a) (upper atom) \<longrightarrow>
                 Spin_atom (h1 ! r) = Atom_init (atom @ drop 1 (Atom_name a)))
           \<and> (Atom_name a = [] \<and> atom \<noteq> [] \<longrightarrow> Spin_atom (h1 ! r) = Atom_init atom))"
proof -
  let ?sp = "SpinSystem_spins self"
  let ?h0 = "h @ [Spin_init [] None]"
  let ?rs = "map (\<lambda>(letter, atom). the (map_of ?sp letter)) basis_atoms"
  have p1: "\<forall>(letter, atom) \<in> set basis_atoms. \<exists>r. map_of ?sp letter = Some r \<and> r < length ?h0"
    using present by fastforce
  have p2: "distinct ?rs"
    by (rule basis_refs_distinct [OF present keys objs])
  from complete_loop_frame [OF p1 p2, of "length h" "[]"] obtain h1 where
    h1: "complete_loop ?sp basis_atoms (length h) [] ?h0 = (h1, ?rs)"
    and upd: "\<forall>(letter, atom) \<in> set basis_atoms.
           h1 ! the (map_of ?sp letter) =
             (?h0 ! the (map_of ?sp letter))
               \<lparr>Spin_atom := complete_atom atom (Spin_atom (?h0 ! the (map_of ?sp letter)))\<rparr>"
    by auto
  have cmp: "complete self basis_atoms h = SpinSystem_init (Str (spins2name h1 ?rs)) h1"
    by (simp add: complete_def alloc_def h1)
  have up: "upper atom \<noteq> []" if "atom \<noteq> []" for atom
    using that by (simp add: upper_def)
  have each: "\<forall>(letter, atom) \<in> set basis_atoms.
           let r = the (map_of ?sp letter); a = Spin_atom (h ! r) in
             Spin_group (h1 ! r) = Spin_group (h ! r)
           \<and> (startswith (Atom_name a) (upper atom) \<longrightarrow> Spin_atom (h1 ! r) = a)
           \<and> (\<not> startswith (Atom_name a) (upper atom) \<longrightarrow>
                 Spin_atom (h1 ! r) = Atom_init (atom @ drop 1 (Atom_name a)))
           \<and> (Atom_name a = [] \<and> atom \<noteq> [] \<longrightarrow> Spin_atom (h1 ! r) = Atom_init atom)"
  proof (clarify)
    fix letter atom assume la: "(letter, atom) \<in> set basis_atoms"
    from present la obtain r where r: "map_of ?sp letter = Some r" "r < length h" by auto
    have hr: "?h0 ! r = h ! r" using r(2) by (simp add: nth_append)
    from upd la r(1) hr have
      "h1 ! r = (h ! r)\<lparr>Spin_atom := complete_atom atom (Spin_atom (h ! r))\<rparr>"
      by auto
    moreover have "atom \<noteq> [] \<Longrightarrow> \<not> startswith [] (upper atom)"
      using up [of atom] by (cases "upper atom") simp_all
    ultimately show "let r = the (map_of ?sp letter); a = Spin_atom (h ! r) in
             Spin_group (h1 ! r) = Spin_group (h ! r)
           \<and> (startswith (Atom_name a) (upper atom) \<longrightarrow> Spin_atom (h1 ! r) = a)
           \<and> (\<not> startswith (Atom_name a) (upper atom) \<longrightarrow>
                 Spin_atom (h1 ! r) = Atom_init (atom @ drop 1 (Atom_name a)))
           \<and> (Atom_name a = [] \<and> atom \<noteq> [] \<longrightarrow> Spin_atom (h1 ! r) = Atom_init atom)"
      using r(1) by (auto simp: Let_def complete_atom_def)
  qed
  show ?thesis
    apply (rule exI [of _ h1])
    apply (rule exI [of _ ?rs])
    using h1 cmp each by simp
qed

lemma complete_rewrites_explicit_atom:
  "atom_names (snd receiver_CA) = [(''i'', ''N''), (''s'', ''CA'')]
 \<and> atom_names (snd (complete (snd receiver_CA) basis_nh (fst receiver_CA)))
     = [(''i'', ''N''), (''s'', ''HA'')]"
  by code_simp

text \<open>
  Claim C3 says that \<open>complete(spin_system, basis)\<close> returns a spin system in which
  every wildcarded (empty-named) atom is set to the basis's nucleus letter for its alias.
  The code does assign the letter to the spin, but it builds the returned system from
  \<open>spins2name\<close>, which prints \<open>str(spin)\<close>, the \<open>name\<close> the constructor stored, for
  every spin whose group differs from the group before it; that name is not updated by
  the assignment. Against the basis \<open>{"i": "n", "s": "h"}\<close>: \<open>SpinSystem("G23")\<close>, whose
  atom of alias \<open>i\<close> is wildcarded, returns \<open>G23-H\<close>, in which the atom of \<open>i\<close> is still
  blank instead of \<open>N\<close>; \<open>SpinSystem("G23N-G24")\<close>, whose atom of alias \<open>s\<close> is
  wildcarded, is returned as \<open>G23N-G24\<close>, the atom of \<open>s\<close> still blank instead of \<open>H\<close>.
\<close>

theorem C3_wildcard_not_completed:
  "atom_names (snd receiver_G23) = [(''i'', [])]
 \<and> SpinSystem_name (snd (complete (snd receiver_G23) basis_nh (fst receiver_G23))) = ''G23-H''
 \<and> atom_names (snd (complete (snd receiver_G23) basis_nh (fst receiver_G23)))
     = [(''i'', []), (''s'', ''H'')]
 \<and> atom_names (snd receiver_G24) = [(''i'', ''N''), (''s'', [])]
 \<and> SpinSystem_name (snd (complete (snd receiver_G24) basis_nh (fst receiver_G24)))
     = ''G23N-G24''
 \<and> atom_names (snd (complete (snd receiver_G24) basis_nh (fst receiver_G24)))
     = [(''i'', ''N''), (''s'', [])]"
  by code_simp

subsection \<open>The receiver of complete\<close>

text \<open>
  Claim C4 says that \<open>complete\<close> leaves the receiver unchanged. The code assigns to
  \<open>spin.atom\<close> of the very objects the receiver's \<open>spins\<close> dictionary holds. For the
  receiver \<open>SpinSystem("G23N")\<close> and the basis \<open>{"i": "n", "s": "h"}\<close>: the alias \<open>s\<close>
  is missing, so the loop takes the spin of \<open>i\<close> again and overwrites its atom \<open>N\<close>
  with \<open>H\<close>. After the call the receiver's only spin (reference 0) has atom \<open>H\<close>, while
  its \<open>name\<close> is still \<open>G23N\<close>. The returned system is \<open>G23N-H\<close>.
\<close>

theorem C4_complete_mutates_receiver:
  "SpinSystem_spins (snd receiver_N) = [(''i'', 0)]
 \<and> SpinSystem_name (snd receiver_N) = ''G23N''
 \<and> Atom_name (Spin_atom (fst receiver_N ! 0)) = ''N''
 \<and> Atom_name (Spin_atom (fst (complete (snd receiver_N) basis_nh (fst receiver_N)) ! 0)) = ''H''
 \<and> SpinSystem_name (snd (complete (snd receiver_N) basis_nh (fst receiver_N))) = ''G23N-H''"
  by code_simp

subsection \<open>Parsing a parsed name\<close>

text \<open>
  Claim C8 says that the name of a parsed label is a fixed point of parsing. For the
  label \<open>G1N-HIS2-G1H\<close> it is not: the second spin is the group \<open>HIS2\<close>, printed
  \<open>H2\<close> after the amino-acid code is normalised, and the name is \<open>G1N-H2-G1H\<close>.
  Parsed again, \<open>H2\<close> is a standard atom name, so the second spin becomes atom \<open>H2\<close> of
  group \<open>G1\<close>, the third spin's group \<open>G1\<close> now repeats the group before it and is
  omitted: the name is \<open>G1N-H2-H\<close>.
\<close>

theorem C8_reparse_changes_name:
  "parsed_name ''G1N-HIS2-G1H'' = ''G1N-H2-G1H''
 \<and> parsed_name (parsed_name ''G1N-HIS2-G1H'') = ''G1N-H2-H''"
  by code_simp

end
